theory Spec2Isabelle
  imports Complex_Main "HOL-Library.List_Lexorder" "HOL-Library.Char_ord"
begin

section \<open>Conventions of the embedding\<close>

text \<open>
  The Python sources under \<^verbatim>\<open>src/pic\<close> are embedded shallowly.

  \<^item> A Python \<^verbatim>\<open>float\<close> is a \<^typ>\<open>real\<close>: rounding, infinities and NaN are
    outside the model.
  \<^item> Every reading of the clock (\<^verbatim>\<open>datetime.now()\<close>, \<^verbatim>\<open>time.time()\<close>) is an explicit
    argument of the function that reads it.
  \<^item> A dataclass is a record. The fields of TelemetryEvent and BaselineProfile keep the
    source's names (\<open>bl_\<close> before the two names that both have); the fields of the other
    dataclasses carry a prefix: \<open>d_\<close> for Decision, \<open>ae_\<close> for AuditEvent, \<open>se_\<close> for
    SignedEvent, \<open>fp_\<close> for PatternFingerprint.
  \<^item> A method that raises returns \<open>Inl\<close> of a \<open>py_error\<close>; a method that changes its
    object returns the changed object beside its result.
  \<^item> The dataclass fields hold values of their annotated types.
  \<^item> A leading underscore of a private name is dropped.
\<close>

datatype py_error =
  ZeroDivisionError | StatisticsError | TypeError | KeyError | ValueError | IndexError

definition bind_err :: "'e + 'a \<Rightarrow> ('a \<Rightarrow> 'e + 'b) \<Rightarrow> 'e + 'b" where
  "bind_err m f = (case m of Inl e \<Rightarrow> Inl e | Inr x \<Rightarrow> f x)"

section \<open>Python values, dicts and JSON documents\<close>

text \<open>
  A \<^verbatim>\<open>datetime\<close> is its number of microseconds on the time line (the resolution of
  Python's \<^verbatim>\<open>datetime\<close>); \<^verbatim>\<open>total_seconds()\<close> and \<^verbatim>\<open>timestamp()\<close> divide by
  \<open>10\<^sup>6\<close>.
\<close>

type_synonym datetime = int

definition total_seconds :: "int \<Rightarrow> real" where
  "total_seconds us = real_of_int us / 1000000"

text \<open>
  Values of the fields typed \<^verbatim>\<open>Any\<close> or \<^verbatim>\<open>Dict[str, Any]\<close>: the Python values
  that \<^verbatim>\<open>json.dumps\<close> accepts, with string and integer dict keys. A dict is the list of
  its items in insertion order; its keys are distinct.
\<close>

datatype pykey = KStr string | KInt int

datatype pyval =
    PNone
  | PBool bool
  | PInt int
  | PFloat real
  | PStr string
  | PList "pyval list"
  | PTuple "pyval list"
  | PDict "(pykey \<times> pyval) list"

fun dict_get :: "('k \<times> 'v) list \<Rightarrow> 'k \<Rightarrow> 'v option" where
  "dict_get [] k = None"
| "dict_get ((k', v') # kvs) k = (if k' = k then Some v' else dict_get kvs k)"

fun dict_set :: "('k \<times> 'v) list \<Rightarrow> 'k \<Rightarrow> 'v \<Rightarrow> ('k \<times> 'v) list" where
  "dict_set [] k v = [(k, v)]"
| "dict_set ((k', v') # kvs) k v =
     (if k' = k then (k', v) # kvs else (k', v') # dict_set kvs k v)"

fun dict_del :: "('k \<times> 'v) list \<Rightarrow> 'k \<Rightarrow> ('k \<times> 'v) list" where
  "dict_del [] k = []"
| "dict_del ((k', v') # kvs) k = (if k' = k then kvs else (k', v') # dict_del kvs k)"

definition dict_of_pairs :: "('k \<times> 'v) list \<Rightarrow> ('k \<times> 'v) list" where
  "dict_of_pairs kvs = foldl (\<lambda>d (k, v). dict_set d k v) [] kvs"

text \<open>
  The text that \<^verbatim>\<open>json.dumps\<close> writes is identified with the JSON document it prints
  (the printer and the parser of the standard library are inverse to each other on
  documents): \<open>json_dumps\<close> maps a Python value to its document, \<open>json_loads\<close> maps a
  document to the Python value that \<^verbatim>\<open>json.loads\<close> builds from its text. An integer and a
  float stay apart, as \<^verbatim>\<open>1\<close> and \<^verbatim>\<open>1.0\<close> do in the text.
\<close>

datatype json =
    JNull
  | JBool bool
  | JInt int
  | JFloat real
  | JStr string
  | JArr "json list"
  | JObj "(string \<times> json) list"

definition digit_char :: "nat \<Rightarrow> char" where
  "digit_char n = ''0123456789'' ! n"

fun str_of_nat :: "nat \<Rightarrow> string" where
  "str_of_nat n =
     (if n < 10 then [digit_char n] else str_of_nat (n div 10) @ [digit_char (n mod 10)])"

definition str_of_int :: "int \<Rightarrow> string" where
  "str_of_int i = (if i < 0 then CHR ''-'' # str_of_nat (nat (- i)) else str_of_nat (nat i))"

fun is_KStr :: "pykey \<Rightarrow> bool" where
  "is_KStr (KStr _) = True"
| "is_KStr (KInt _) = False"

text \<open>Python's \<^verbatim>\<open><\<close>/\<^verbatim>\<open><=\<close> on keys of one kind: strings by code point, integers by value.\<close>

fun key_le :: "pykey \<Rightarrow> pykey \<Rightarrow> bool" where
  "key_le (KStr a) (KStr b) = (a \<le> b)"
| "key_le (KInt a) (KInt b) = (a \<le> b)"
| "key_le _ _ = False"

fun insort_item :: "(pykey \<times> 'a) \<Rightarrow> (pykey \<times> 'a) list \<Rightarrow> (pykey \<times> 'a) list" where
  "insort_item x [] = [x]"
| "insort_item x (y # ys) =
     (if key_le (fst x) (fst y) then x # y # ys else y # insort_item x ys)"

text \<open>
  \<^verbatim>\<open>sorted(dct.items())\<close>, which \<^verbatim>\<open>sort_keys=True\<close> runs before the keys are turned into
  strings: comparing a string key with an integer key raises TypeError.
\<close>

definition sorted_items :: "(pykey \<times> 'a) list \<Rightarrow> py_error + (pykey \<times> 'a) list" where
  "sorted_items kvs =
     (if list_all is_KStr (map fst kvs) \<or> list_all (\<lambda>k. \<not> is_KStr k) (map fst kvs)
      then Inr (foldr insort_item kvs [])
      else Inl TypeError)"

text \<open>The key of a JSON object member: \<^verbatim>\<open>json.dumps\<close> writes an integer key as \<^verbatim>\<open>str(key)\<close>.\<close>

fun key_str :: "pykey \<Rightarrow> string" where
  "key_str (KStr s) = s"
| "key_str (KInt i) = str_of_int i"

fun json_dumps :: "bool \<Rightarrow> pyval \<Rightarrow> py_error + json"
and dumps_list :: "bool \<Rightarrow> pyval list \<Rightarrow> py_error + json list"
and dumps_items :: "bool \<Rightarrow> (pykey \<times> pyval) list \<Rightarrow> py_error + (pykey \<times> json) list"
where
  "json_dumps sort_keys PNone = Inr JNull"
| "json_dumps sort_keys (PBool b) = Inr (JBool b)"
| "json_dumps sort_keys (PInt i) = Inr (JInt i)"
| "json_dumps sort_keys (PFloat r) = Inr (JFloat r)"
| "json_dumps sort_keys (PStr s) = Inr (JStr s)"
| "json_dumps sort_keys (PList xs) =
     (case dumps_list sort_keys xs of Inl e \<Rightarrow> Inl e | Inr js \<Rightarrow> Inr (JArr js))"
| "json_dumps sort_keys (PTuple xs) =
     (case dumps_list sort_keys xs of Inl e \<Rightarrow> Inl e | Inr js \<Rightarrow> Inr (JArr js))"
| "json_dumps sort_keys (PDict kvs) =
     (case dumps_items sort_keys kvs of
        Inl e \<Rightarrow> Inl e
      | Inr kjs \<Rightarrow>
         (case (if sort_keys then sorted_items kjs else Inr kjs) of
            Inl e \<Rightarrow> Inl e
          | Inr items \<Rightarrow> Inr (JObj (map (\<lambda>(k, j). (key_str k, j)) items))))"
| "dumps_list sort_keys [] = Inr []"
| "dumps_list sort_keys (x # xs) =
     (case json_dumps sort_keys x of
        Inl e \<Rightarrow> Inl e
      | Inr j \<Rightarrow>
         (case dumps_list sort_keys xs of Inl e \<Rightarrow> Inl e | Inr js \<Rightarrow> Inr (j # js)))"
| "dumps_items sort_keys [] = Inr []"
| "dumps_items sort_keys ((k, v) # kvs) =
     (case json_dumps sort_keys v of
        Inl e \<Rightarrow> Inl e
      | Inr j \<Rightarrow>
         (case dumps_items sort_keys kvs of
            Inl e \<Rightarrow> Inl e
          | Inr kjs \<Rightarrow> Inr ((k, j) # kjs)))"

text \<open>
  \<^verbatim>\<open>json.loads\<close>: an object becomes a dict with string keys (a repeated member name keeps
  its first position and its last value), an array becomes a list.
\<close>

fun json_loads :: "json \<Rightarrow> pyval" where
  "json_loads JNull = PNone"
| "json_loads (JBool b) = PBool b"
| "json_loads (JInt i) = PInt i"
| "json_loads (JFloat r) = PFloat r"
| "json_loads (JStr s) = PStr s"
| "json_loads (JArr js) = PList (map json_loads js)"
| "json_loads (JObj kjs) =
     PDict (dict_of_pairs (map (\<lambda>(k, j). (KStr k, json_loads j)) kjs))"

text \<open>
  The byte strings handed to the HMAC: the output of \<^verbatim>\<open>json.dumps\<close>, or the f-string
  \<^verbatim>\<open>f"{event_dict}|{nonce}|{timestamp}"\<close> of the signed-event envelope, identified with
  the three values it formats.
\<close>

datatype payload = JsonText json | SignText pyval string string

text \<open>
  The functions of the Python standard library that the code calls and that are not
  computed here: \<open>hmac_sha256 key data\<close> is the digest of
  \<^verbatim>\<open>hmac.new(key, data, hashlib.sha256)\<close> as a list of bytes,
  \<open>isoformat\<close>/\<open>fromisoformat\<close> are the methods of \<^verbatim>\<open>datetime\<close>, \<open>format_1f\<close> is the
  format specification \<^verbatim>\<open>:.1f\<close>, and \<open>md5_hex8\<close> is
  \<^verbatim>\<open>hashlib.md5(str(items).encode()).hexdigest()[:8]\<close>.
\<close>

record stdlib =
  hmac_sha256 :: "nat list \<Rightarrow> payload \<Rightarrow> nat list"
  isoformat :: "datetime \<Rightarrow> string"
  fromisoformat :: "string \<Rightarrow> py_error + datetime"
  format_1f :: "real \<Rightarrow> string"
  md5_hex8 :: "(string \<times> int) list \<Rightarrow> string"

section \<open>Data model (\<^verbatim>\<open>pic/models\<close>)\<close>

record TelemetryEvent =
  timestamp :: datetime
  event_id :: string
  process_id :: int
  thread_id :: int
  function_name :: string
  "module_name" :: string
  duration_ms :: real
  args_metadata :: "(pykey \<times> pyval) list"
  resource_tags :: "(string \<times> int) list"
  redaction_applied :: bool
  sampling_rate :: real

record BaselineProfile =
  bl_function_name :: string
  bl_module_name :: string
  version :: int
  created_at :: datetime
  updated_at :: datetime
  sample_count :: int
  mean_duration_ms :: real
  std_duration_ms :: real
  p50_duration_ms :: real
  p95_duration_ms :: real
  p99_duration_ms :: real
  historical_distances :: "real list"

record Decision =
  d_action :: string
  d_reason :: string
  d_anomaly_score :: real
  d_detector_id :: "string option"
  d_metadata :: "(pykey \<times> pyval) list option"

record AuditEvent =
  ae_timestamp :: datetime
  ae_event_type :: string
  ae_actor :: string
  ae_action :: string
  ae_result :: string
  ae_signature :: string
  ae_target :: "string option"
  ae_anomaly_score :: "real option"
  ae_metadata :: "(pykey \<times> pyval) list option"

record SignedEvent =
  se_event :: TelemetryEvent
  se_signature :: string
  se_nonce :: string
  se_timestamp :: datetime

text \<open>
  The Python values that JSON represents as they are: no tuple, and every dict, nested
  ones included, has string keys only (its keys are distinct, as in every dict).
\<close>

fun json_native :: "pyval \<Rightarrow> bool"
and json_native_list :: "pyval list \<Rightarrow> bool"
and json_native_items :: "(pykey \<times> pyval) list \<Rightarrow> bool"
where
  "json_native PNone = True"
| "json_native (PBool b) = True"
| "json_native (PInt i) = True"
| "json_native (PFloat r) = True"
| "json_native (PStr s) = True"
| "json_native (PList xs) = json_native_list xs"
| "json_native (PTuple xs) = False"
| "json_native (PDict kvs) = (json_native_items kvs \<and> distinct (map fst kvs))"
| "json_native_list [] = True"
| "json_native_list (x # xs) = (json_native x \<and> json_native_list xs)"
| "json_native_items [] = True"
| "json_native_items ((k, v) # kvs) = (is_KStr k \<and> json_native v \<and> json_native_items kvs)"

subsection \<open>Serialisation (\<^verbatim>\<open>to_dict\<close>, \<^verbatim>\<open>to_json\<close>, \<^verbatim>\<open>from_json\<close>)\<close>

text \<open>
  \<^verbatim>\<open>cls(**data)\<close> raises TypeError for a missing or an unexpected keyword. The getters
  below also raise TypeError where the value in the document is not of the field's
  annotated type, since a record field cannot hold it.
\<close>

definition get_field :: "(pykey \<times> pyval) list \<Rightarrow> string \<Rightarrow> py_error + pyval" where
  "get_field d k = (case dict_get d (KStr k) of None \<Rightarrow> Inl TypeError | Some v \<Rightarrow> Inr v)"

definition get_field_default :: "(pykey \<times> pyval) list \<Rightarrow> string \<Rightarrow> pyval" where
  "get_field_default d k = (case dict_get d (KStr k) of None \<Rightarrow> PNone | Some v \<Rightarrow> v)"

definition only_keys :: "string list \<Rightarrow> (pykey \<times> pyval) list \<Rightarrow> py_error + unit" where
  "only_keys names d =
     (if list_all (\<lambda>k. k \<in> set (map KStr names)) (map fst d) then Inr () else Inl TypeError)"

fun as_str :: "pyval \<Rightarrow> py_error + string" where
  "as_str (PStr s) = Inr s"
| "as_str _ = Inl TypeError"

fun as_int :: "pyval \<Rightarrow> py_error + int" where
  "as_int (PInt i) = Inr i"
| "as_int _ = Inl TypeError"

fun as_float :: "pyval \<Rightarrow> py_error + real" where
  "as_float (PFloat r) = Inr r"
| "as_float (PInt i) = Inr (of_int i)"
| "as_float _ = Inl TypeError"

fun as_bool :: "pyval \<Rightarrow> py_error + bool" where
  "as_bool (PBool b) = Inr b"
| "as_bool _ = Inl TypeError"

fun as_dict :: "pyval \<Rightarrow> py_error + (pykey \<times> pyval) list" where
  "as_dict (PDict kvs) = Inr kvs"
| "as_dict _ = Inl TypeError"

fun as_optional :: "(pyval \<Rightarrow> py_error + 'a) \<Rightarrow> pyval \<Rightarrow> py_error + 'a option" where
  "as_optional f PNone = Inr None"
| "as_optional f v = bind_err (f v) (\<lambda>x. Inr (Some x))"

fun sequence_err :: "('e + 'a) list \<Rightarrow> 'e + 'a list" where
  "sequence_err [] = Inr []"
| "sequence_err (m # ms) = bind_err m (\<lambda>x. bind_err (sequence_err ms) (\<lambda>xs. Inr (x # xs)))"

fun as_float_list :: "pyval \<Rightarrow> py_error + real list" where
  "as_float_list (PList xs) = sequence_err (map as_float xs)"
| "as_float_list _ = Inl TypeError"

fun as_tag :: "pykey \<times> pyval \<Rightarrow> py_error + string \<times> int" where
  "as_tag (KStr k, PInt i) = Inr (k, i)"
| "as_tag _ = Inl TypeError"

fun as_tags :: "pyval \<Rightarrow> py_error + (string \<times> int) list" where
  "as_tags (PDict kvs) = sequence_err (map as_tag kvs)"
| "as_tags _ = Inl TypeError"

definition optional_val :: "('a \<Rightarrow> pyval) \<Rightarrow> 'a option \<Rightarrow> pyval" where
  "optional_val f x = (case x of None \<Rightarrow> PNone | Some y \<Rightarrow> f y)"

text \<open>\<^verbatim>\<open>data["timestamp"]\<close> read back through \<^verbatim>\<open>datetime.fromisoformat\<close>.\<close>

definition parse_time :: "stdlib \<Rightarrow> (pykey \<times> pyval) list \<Rightarrow> string \<Rightarrow> py_error + datetime" where
  "parse_time L d k =
     (case dict_get d (KStr k) of
        None \<Rightarrow> Inl KeyError
      | Some v \<Rightarrow> bind_err (as_str v) (fromisoformat L))"

definition tags_val :: "(string \<times> int) list \<Rightarrow> pyval" where
  "tags_val tags = PDict (map (\<lambda>(k, i). (KStr k, PInt i)) tags)"

definition TelemetryEvent_to_dict :: "stdlib \<Rightarrow> TelemetryEvent \<Rightarrow> pyval" where
  "TelemetryEvent_to_dict L ev = PDict
     [(KStr ''timestamp'', PStr (isoformat L (timestamp ev))),
      (KStr ''event_id'', PStr (event_id ev)),
      (KStr ''process_id'', PInt (process_id ev)),
      (KStr ''thread_id'', PInt (thread_id ev)),
      (KStr ''function_name'', PStr (function_name ev)),
      (KStr ''module_name'', PStr (module_name ev)),
      (KStr ''duration_ms'', PFloat (duration_ms ev)),
      (KStr ''args_metadata'', PDict (args_metadata ev)),
      (KStr ''resource_tags'', tags_val (resource_tags ev)),
      (KStr ''redaction_applied'', PBool (redaction_applied ev)),
      (KStr ''sampling_rate'', PFloat (sampling_rate ev))]"

definition TelemetryEvent_to_json :: "stdlib \<Rightarrow> TelemetryEvent \<Rightarrow> py_error + json" where
  "TelemetryEvent_to_json L ev = json_dumps False (TelemetryEvent_to_dict L ev)"

definition TelemetryEvent_from_json :: "stdlib \<Rightarrow> json \<Rightarrow> py_error + TelemetryEvent" where
  "TelemetryEvent_from_json L json_str =
     bind_err (as_dict (json_loads json_str)) (\<lambda>data.
     bind_err (parse_time L data ''timestamp'') (\<lambda>ts.
     bind_err (only_keys [''timestamp'', ''event_id'', ''process_id'', ''thread_id'',
                 ''function_name'', ''module_name'', ''duration_ms'', ''args_metadata'',
                 ''resource_tags'', ''redaction_applied'', ''sampling_rate''] data) (\<lambda>_.
     bind_err (bind_err (get_field data ''event_id'') as_str) (\<lambda>eid.
     bind_err (bind_err (get_field data ''process_id'') as_int) (\<lambda>pid.
     bind_err (bind_err (get_field data ''thread_id'') as_int) (\<lambda>tid.
     bind_err (bind_err (get_field data ''function_name'') as_str) (\<lambda>fn.
     bind_err (bind_err (get_field data ''module_name'') as_str) (\<lambda>mn.
     bind_err (bind_err (get_field data ''duration_ms'') as_float) (\<lambda>dur.
     bind_err (bind_err (get_field data ''args_metadata'') as_dict) (\<lambda>am.
     bind_err (bind_err (get_field data ''resource_tags'') as_tags) (\<lambda>rt.
     bind_err (bind_err (get_field data ''redaction_applied'') as_bool) (\<lambda>ra.
     bind_err (bind_err (get_field data ''sampling_rate'') as_float) (\<lambda>sr.
     Inr \<lparr>timestamp = ts, event_id = eid, process_id = pid, thread_id = tid,
          function_name = fn, module_name = mn, duration_ms = dur, args_metadata = am,
          resource_tags = rt, redaction_applied = ra, sampling_rate = sr\<rparr>)))))))))))))"

definition BaselineProfile_to_dict :: "stdlib \<Rightarrow> BaselineProfile \<Rightarrow> pyval" where
  "BaselineProfile_to_dict L b = PDict
     [(KStr ''function_name'', PStr (bl_function_name b)),
      (KStr ''module_name'', PStr (bl_module_name b)),
      (KStr ''version'', PInt (version b)),
      (KStr ''created_at'', PStr (isoformat L (created_at b))),
      (KStr ''updated_at'', PStr (isoformat L (updated_at b))),
      (KStr ''sample_count'', PInt (sample_count b)),
      (KStr ''mean_duration_ms'', PFloat (mean_duration_ms b)),
      (KStr ''std_duration_ms'', PFloat (std_duration_ms b)),
      (KStr ''p50_duration_ms'', PFloat (p50_duration_ms b)),
      (KStr ''p95_duration_ms'', PFloat (p95_duration_ms b)),
      (KStr ''p99_duration_ms'', PFloat (p99_duration_ms b)),
      (KStr ''historical_distances'', PList (map PFloat (historical_distances b)))]"

definition BaselineProfile_to_json :: "stdlib \<Rightarrow> BaselineProfile \<Rightarrow> py_error + json" where
  "BaselineProfile_to_json L b = json_dumps False (BaselineProfile_to_dict L b)"

definition BaselineProfile_from_json :: "stdlib \<Rightarrow> json \<Rightarrow> py_error + BaselineProfile" where
  "BaselineProfile_from_json L json_str =
     bind_err (as_dict (json_loads json_str)) (\<lambda>data.
     bind_err (parse_time L data ''created_at'') (\<lambda>ca.
     bind_err (parse_time L data ''updated_at'') (\<lambda>ua.
     bind_err (only_keys [''function_name'', ''module_name'', ''version'', ''created_at'',
                 ''updated_at'', ''sample_count'', ''mean_duration_ms'', ''std_duration_ms'',
                 ''p50_duration_ms'', ''p95_duration_ms'', ''p99_duration_ms'',
                 ''historical_distances''] data) (\<lambda>_.
     bind_err (bind_err (get_field data ''function_name'') as_str) (\<lambda>fn.
     bind_err (bind_err (get_field data ''module_name'') as_str) (\<lambda>mn.
     bind_err (bind_err (get_field data ''version'') as_int) (\<lambda>ver.
     bind_err (bind_err (get_field data ''sample_count'') as_int) (\<lambda>n.
     bind_err (bind_err (get_field data ''mean_duration_ms'') as_float) (\<lambda>mean.
     bind_err (bind_err (get_field data ''std_duration_ms'') as_float) (\<lambda>std.
     bind_err (bind_err (get_field data ''p50_duration_ms'') as_float) (\<lambda>p50.
     bind_err (bind_err (get_field data ''p95_duration_ms'') as_float) (\<lambda>p95.
     bind_err (bind_err (get_field data ''p99_duration_ms'') as_float) (\<lambda>p99.
     bind_err (bind_err (get_field data ''historical_distances'') as_float_list) (\<lambda>hd.
     Inr \<lparr>bl_function_name = fn, bl_module_name = mn, version = ver, created_at = ca,
          updated_at = ua, sample_count = n, mean_duration_ms = mean, std_duration_ms = std,
          p50_duration_ms = p50, p95_duration_ms = p95, p99_duration_ms = p99,
          historical_distances = hd\<rparr>))))))))))))))"

definition Decision_to_dict :: "Decision \<Rightarrow> pyval" where
  "Decision_to_dict d = PDict
     [(KStr ''action'', PStr (d_action d)),
      (KStr ''reason'', PStr (d_reason d)),
      (KStr ''anomaly_score'', PFloat (d_anomaly_score d)),
      (KStr ''detector_id'', optional_val PStr (d_detector_id d)),
      (KStr ''metadata'', optional_val PDict (d_metadata d))]"

definition Decision_to_json :: "Decision \<Rightarrow> py_error + json" where
  "Decision_to_json d = json_dumps False (Decision_to_dict d)"

definition Decision_from_json :: "json \<Rightarrow> py_error + Decision" where
  "Decision_from_json json_str =
     bind_err (as_dict (json_loads json_str)) (\<lambda>data.
     bind_err (only_keys [''action'', ''reason'', ''anomaly_score'', ''detector_id'',
                 ''metadata''] data) (\<lambda>_.
     bind_err (bind_err (get_field data ''action'') as_str) (\<lambda>a.
     bind_err (bind_err (get_field data ''reason'') as_str) (\<lambda>r.
     bind_err (bind_err (get_field data ''anomaly_score'') as_float) (\<lambda>sc.
     bind_err (as_optional as_str (get_field_default data ''detector_id'')) (\<lambda>det.
     bind_err (as_optional as_dict (get_field_default data ''metadata'')) (\<lambda>md.
     Inr \<lparr>d_action = a, d_reason = r, d_anomaly_score = sc, d_detector_id = det,
          d_metadata = md\<rparr>)))))))"

text \<open>The two factory methods of \<^verbatim>\<open>Decision\<close>.\<close>

definition Decision_allow :: "string \<Rightarrow> real \<Rightarrow> Decision" where
  "Decision_allow r sc =
     \<lparr>d_action = ''allow'', d_reason = r, d_anomaly_score = sc, d_detector_id = None,
      d_metadata = None\<rparr>"

definition Decision_block :: "string \<Rightarrow> real \<Rightarrow> string option \<Rightarrow> Decision" where
  "Decision_block r sc det =
     \<lparr>d_action = ''block'', d_reason = r, d_anomaly_score = sc, d_detector_id = det,
      d_metadata = None\<rparr>"

definition AuditEvent_to_dict :: "stdlib \<Rightarrow> AuditEvent \<Rightarrow> (pykey \<times> pyval) list" where
  "AuditEvent_to_dict L e =
     [(KStr ''timestamp'', PStr (isoformat L (ae_timestamp e))),
      (KStr ''event_type'', PStr (ae_event_type e)),
      (KStr ''actor'', PStr (ae_actor e)),
      (KStr ''action'', PStr (ae_action e)),
      (KStr ''result'', PStr (ae_result e)),
      (KStr ''signature'', PStr (ae_signature e)),
      (KStr ''target'', optional_val PStr (ae_target e)),
      (KStr ''anomaly_score'', optional_val PFloat (ae_anomaly_score e)),
      (KStr ''metadata'', optional_val PDict (ae_metadata e))]"

definition AuditEvent_to_json :: "stdlib \<Rightarrow> AuditEvent \<Rightarrow> py_error + json" where
  "AuditEvent_to_json L e = json_dumps False (PDict (AuditEvent_to_dict L e))"

definition AuditEvent_from_json :: "stdlib \<Rightarrow> json \<Rightarrow> py_error + AuditEvent" where
  "AuditEvent_from_json L json_str =
     bind_err (as_dict (json_loads json_str)) (\<lambda>data.
     bind_err (parse_time L data ''timestamp'') (\<lambda>ts.
     bind_err (only_keys [''timestamp'', ''event_type'', ''actor'', ''action'', ''result'',
                 ''signature'', ''target'', ''anomaly_score'', ''metadata''] data) (\<lambda>_.
     bind_err (bind_err (get_field data ''event_type'') as_str) (\<lambda>et.
     bind_err (bind_err (get_field data ''actor'') as_str) (\<lambda>ac.
     bind_err (bind_err (get_field data ''action'') as_str) (\<lambda>a.
     bind_err (bind_err (get_field data ''result'') as_str) (\<lambda>r.
     bind_err (bind_err (get_field data ''signature'') as_str) (\<lambda>sg.
     bind_err (as_optional as_str (get_field_default data ''target'')) (\<lambda>tg.
     bind_err (as_optional as_float (get_field_default data ''anomaly_score'')) (\<lambda>sc.
     bind_err (as_optional as_dict (get_field_default data ''metadata'')) (\<lambda>md.
     Inr \<lparr>ae_timestamp = ts, ae_event_type = et, ae_actor = ac, ae_action = a,
          ae_result = r, ae_signature = sg, ae_target = tg, ae_anomaly_score = sc,
          ae_metadata = md\<rparr>)))))))))))"

text \<open>
  \<^verbatim>\<open>get_signable_data\<close>: the dict without its \<^verbatim>\<open>signature\<close> item, written with
  \<^verbatim>\<open>sort_keys=True\<close>.
\<close>

definition get_signable_data :: "stdlib \<Rightarrow> AuditEvent \<Rightarrow> py_error + payload" where
  "get_signable_data L e =
     bind_err (json_dumps True (PDict (dict_del (AuditEvent_to_dict L e) (KStr ''signature''))))
       (\<lambda>j. Inr (JsonText j))"

section \<open>CryptoCore (\<^verbatim>\<open>pic/crypto/core.py\<close>)\<close>

text \<open>
  The constructor always loads or generates the signing key, so the key is a field that is
  always set and the guard \<^verbatim>\<open>if self._signing_key is None\<close> is never taken.
\<close>

record CryptoCore =
  signing_key :: "nat list"

definition hex_char :: "nat \<Rightarrow> char" where
  "hex_char n = ''0123456789abcdef'' ! (n mod 16)"

definition hexdigest :: "nat list \<Rightarrow> string" where
  "hexdigest bs = concat (map (\<lambda>b. [hex_char (b div 16), hex_char b]) bs)"

definition hmac_sign :: "stdlib \<Rightarrow> CryptoCore \<Rightarrow> payload \<Rightarrow> string" where
  "hmac_sign L c data = hexdigest (hmac_sha256 L (signing_key c) data)"

definition is_ascii :: "string \<Rightarrow> bool" where
  "is_ascii s = list_all (\<lambda>c. (of_char c :: nat) < 128) s"

text \<open>
  \<^verbatim>\<open>hmac.compare_digest\<close> on two \<^verbatim>\<open>str\<close> arguments: equality, and TypeError when either
  string has a character outside ASCII.
\<close>

definition compare_digest :: "string \<Rightarrow> string \<Rightarrow> py_error + bool" where
  "compare_digest a b = (if is_ascii a \<and> is_ascii b then Inr (a = b) else Inl TypeError)"

definition verify_signature :: "stdlib \<Rightarrow> CryptoCore \<Rightarrow> payload \<Rightarrow> string \<Rightarrow> py_error + bool" where
  "verify_signature L c data sig =
     (let expected_signature = hmac_sign L c data
      in compare_digest sig expected_signature)"

definition verify_hmac :: "stdlib \<Rightarrow> CryptoCore \<Rightarrow> payload \<Rightarrow> string \<Rightarrow> py_error + bool" where
  "verify_hmac L c data sig = verify_signature L c data sig"

section \<open>AuditStore (\<^verbatim>\<open>pic/storage/audit_store.py\<close>)\<close>

text \<open>
  The log file is the list of its lines, each the document that \<^verbatim>\<open>to_json\<close> wrote
  (\<^verbatim>\<open>json.dumps\<close> writes no line break and no surrounding blanks, so \<^verbatim>\<open>strip\<close> and the
  test for an empty line change nothing). \<open>log_event\<close> raises before it writes, so an
  error leaves the store as it was.
\<close>

record AuditStore =
  log_lines :: "json list"
  crypto_core :: CryptoCore

definition log_event :: "stdlib \<Rightarrow> AuditStore \<Rightarrow> AuditEvent \<Rightarrow> py_error + AuditStore" where
  "log_event L st e =
     bind_err (get_signable_data L e) (\<lambda>signable_data.
     (let sig = hmac_sign L (crypto_core st) signable_data;
          e' = e\<lparr>ae_signature := sig\<rparr>
      in bind_err (AuditEvent_to_json L e') (\<lambda>line.
           Inr (st\<lparr>log_lines := log_lines st @ [line]\<rparr>))))"

definition verify_line :: "stdlib \<Rightarrow> CryptoCore \<Rightarrow> json \<Rightarrow> py_error + bool" where
  "verify_line L c line =
     bind_err (AuditEvent_from_json L line) (\<lambda>e.
     bind_err (get_signable_data L e) (\<lambda>signable_data.
     verify_signature L c signable_data (ae_signature e)))"

text \<open>The loop returns False at the first line that does not verify or that raises.\<close>

fun verify_lines :: "stdlib \<Rightarrow> CryptoCore \<Rightarrow> json list \<Rightarrow> bool" where
  "verify_lines L c [] = True"
| "verify_lines L c (line # rest) =
     (case verify_line L c line of
        Inl _ \<Rightarrow> False
      | Inr ok \<Rightarrow> if \<not> ok then False else verify_lines L c rest)"

definition verify_log_integrity :: "stdlib \<Rightarrow> AuditStore \<Rightarrow> bool" where
  "verify_log_integrity L st = verify_lines L (crypto_core st) (log_lines st)"

fun export_lines ::
  "stdlib \<Rightarrow> datetime option \<Rightarrow> datetime option \<Rightarrow> json list \<Rightarrow> AuditEvent list" where
  "export_lines L start_time end_time [] = []"
| "export_lines L start_time end_time (line # rest) =
     (case AuditEvent_from_json L line of
        Inl _ \<Rightarrow> export_lines L start_time end_time rest
      | Inr e \<Rightarrow>
          if (case start_time of None \<Rightarrow> False | Some t \<Rightarrow> ae_timestamp e < t)
          then export_lines L start_time end_time rest
          else if (case end_time of None \<Rightarrow> False | Some t \<Rightarrow> ae_timestamp e > t)
          then export_lines L start_time end_time rest
          else e # export_lines L start_time end_time rest)"

definition export_logs ::
  "stdlib \<Rightarrow> AuditStore \<Rightarrow> datetime option \<Rightarrow> datetime option \<Rightarrow> AuditEvent list" where
  "export_logs L st start_time end_time = export_lines L start_time end_time (log_lines st)"

definition get_event_count :: "AuditStore \<Rightarrow> nat" where
  "get_event_count st = length (log_lines st)"

text \<open>The state of the store after a sequence of \<open>log_event\<close> calls; a call that raises writes nothing.\<close>

fun log_events :: "stdlib \<Rightarrow> AuditStore \<Rightarrow> AuditEvent list \<Rightarrow> AuditStore" where
  "log_events L st [] = st"
| "log_events L st (e # es) =
     (case log_event L st e of
        Inl _ \<Rightarrow> log_events L st es
      | Inr st' \<Rightarrow> log_events L st' es)"

text \<open>
  An audit event that JSON stores as it is (its metadata is absent or JSON-native, and
  \<^verbatim>\<open>fromisoformat\<close> reads its timestamp back), and an entry whose signature verifies over
  its canonical encoding.
\<close>

definition native_audit :: "stdlib \<Rightarrow> AuditEvent \<Rightarrow> bool" where
  "native_audit L e =
     (fromisoformat L (isoformat L (ae_timestamp e)) = Inr (ae_timestamp e) \<and>
      (case ae_metadata e of None \<Rightarrow> True | Some m \<Rightarrow> json_native (PDict m)))"

definition signed_entry :: "stdlib \<Rightarrow> CryptoCore \<Rightarrow> AuditEvent \<Rightarrow> bool" where
  "signed_entry L c e =
     (case get_signable_data L e of
        Inl _ \<Rightarrow> False
      | Inr d \<Rightarrow> verify_signature L c d (ae_signature e) = Inr True)"

section \<open>FeatureNormalizer and AnomalyDetector (\<^verbatim>\<open>pic/brain/normalizer.py\<close>, \<^verbatim>\<open>pic/brain/detector.py\<close>)\<close>

definition normalize_value :: "real \<Rightarrow> real \<Rightarrow> real \<Rightarrow> real" where
  "normalize_value v mean std = (if std = 0 then 0 else (v - mean) / std)"

definition distance_to_percentile :: "real \<Rightarrow> real" where
  "distance_to_percentile distance =
     (if distance \<le> 0 then 50
      else if distance \<le> 1 then 50 + distance * 34
      else if distance \<le> 2 then 84 + (distance - 1) * 13.5
      else if distance \<le> 3 then 97.5 + (distance - 2) * 2.4
      else 99.9 + min 0.1 ((distance - 3) * 0.01))"

definition compute_anomaly_score :: "TelemetryEvent \<Rightarrow> BaselineProfile \<Rightarrow> real" where
  "compute_anomaly_score ev baseline =
     (let normalized_duration =
            normalize_value (duration_ms ev) (mean_duration_ms baseline) (std_duration_ms baseline);
          l2_distance = \<bar>normalized_duration\<bar>;
          percentile_rank = distance_to_percentile l2_distance;
          anomaly_score = percentile_rank
      in min 100 (max 0 anomaly_score))"

text \<open>The zone boundary that \<^verbatim>\<open>BrainCore.__init__\<close> derives from the anomaly threshold.\<close>

definition soft_allow_threshold_low :: "real \<Rightarrow> real" where
  "soft_allow_threshold_low anomaly_threshold = max (anomaly_threshold - 10) 0"

text \<open>The straight line through two points, and the z-score as the specification words it.\<close>

definition line_through :: "real \<Rightarrow> real \<Rightarrow> real \<Rightarrow> real \<Rightarrow> real \<Rightarrow> real" where
  "line_through x0 y0 x1 y1 x = y0 + (y1 - y0) * (x - x0) / (x1 - x0)"

definition spec_z :: "TelemetryEvent \<Rightarrow> BaselineProfile \<Rightarrow> real" where
  "spec_z ev baseline =
     (if std_duration_ms baseline = 0 then 0
      else (duration_ms ev - mean_duration_ms baseline) / std_duration_ms baseline)"

section \<open>EventQueue and BackpressureController (\<^verbatim>\<open>pic/brain/event_queue.py\<close>, \<^verbatim>\<open>pic/brain/backpressure_controller.py\<close>)\<close>

record EventQueue =
  max_size :: nat
  backpressure_threshold :: real
  queue :: "TelemetryEvent list"
  total_enqueued :: nat
  total_dequeued :: nat
  total_dropped :: nat

definition get_utilization :: "EventQueue \<Rightarrow> py_error + real" where
  "get_utilization q =
     (if max_size q = 0 then Inl ZeroDivisionError
      else Inr (real (length (queue q)) / real (max_size q)))"

definition has_backpressure :: "EventQueue \<Rightarrow> py_error + bool" where
  "has_backpressure q =
     (case get_utilization q of
        Inl e \<Rightarrow> Inl e
      | Inr u \<Rightarrow> Inr (u \<ge> backpressure_threshold q))"

definition get_recommended_rate :: "EventQueue \<Rightarrow> real option \<Rightarrow> py_error + real" where
  "get_recommended_rate q utilization =
     (case (case utilization of None \<Rightarrow> get_utilization q | Some u \<Rightarrow> Inr u) of
        Inl e \<Rightarrow> Inl e
      | Inr u \<Rightarrow>
          Inr (if u \<ge> 0.95 then 0.1
               else if u \<ge> 0.9 then 0.25
               else if u \<ge> 0.8 then 0.5
               else if u \<ge> 0.7 then 0.75
               else 1.0))"

section \<open>BaselineProfiler (\<^verbatim>\<open>pic/brain/profiler.py\<close>)\<close>

record BaselineProfiler =
  min_samples :: int
  samples :: "string \<rightharpoonup> real list"

definition BaselineProfiler_init :: "int \<Rightarrow> BaselineProfiler" where
  "BaselineProfiler_init n = \<lparr>min_samples = n, samples = Map.empty\<rparr>"

definition sample_key :: "string \<Rightarrow> string \<Rightarrow> string" where
  "sample_key fn mn = mn @ ''.'' @ fn"

definition add_sample :: "BaselineProfiler \<Rightarrow> TelemetryEvent \<Rightarrow> BaselineProfiler" where
  "add_sample p ev =
     (let key = sample_key (function_name ev) (module_name ev);
          s1 = (if key \<notin> dom (samples p) then (samples p)(key \<mapsto> []) else samples p)
      in p\<lparr>samples := s1(key \<mapsto> (case s1 key of None \<Rightarrow> [] | Some xs \<Rightarrow> xs) @ [duration_ms ev])\<rparr>)"




definition get_samples :: "BaselineProfiler \<Rightarrow> string \<Rightarrow> real list" where
  "get_samples p key = (case samples p key of None \<Rightarrow> [] | Some xs \<Rightarrow> xs)"


definition get_sample_count :: "BaselineProfiler \<Rightarrow> string \<Rightarrow> string \<Rightarrow> int" where
  "get_sample_count p fn mn = int (length (get_samples p (sample_key fn mn)))"

text \<open>
  A run of \<open>add_sample\<close> calls, and the durations among the added events that fall under
  one key, in the order of the calls.
\<close>

definition add_samples :: "BaselineProfiler \<Rightarrow> TelemetryEvent list \<Rightarrow> BaselineProfiler" where
  "add_samples p evs = foldl add_sample p evs"



section \<open>PatternMemoryCache (\<^verbatim>\<open>pic/brain/pattern_cache.py\<close>)\<close>

record PatternFingerprint =
  fp_function_name :: string
  fp_module_name :: string
  duration_min :: real
  duration_max :: real
  arg_types :: "pyval list"
  resource_signature :: string
  fp_timestamp :: real
  hit_count :: int

text \<open>The two dicts keep their insertion order, which decides ties in \<open>evict_lru\<close>.\<close>

record PatternMemoryCache =
  ttl_seconds :: int
  pc_max_size :: int
  cache :: "(string \<times> PatternFingerprint) list"
  access_times :: "(string \<times> real) list"
  hits :: nat
  misses :: nat
  evictions :: nat

fun key_val :: "pykey \<Rightarrow> pyval" where
  "key_val (KStr s) = PStr s"
| "key_val (KInt i) = PInt i"

text \<open>\<^verbatim>\<open>tuple(x)\<close>: the items of an iterable, TypeError for a value that is not iterable.\<close>

fun py_tuple :: "pyval \<Rightarrow> py_error + pyval list" where
  "py_tuple (PList xs) = Inr xs"
| "py_tuple (PTuple xs) = Inr xs"
| "py_tuple (PStr s) = Inr (map (\<lambda>c. PStr [c]) s)"
| "py_tuple (PDict kvs) = Inr (map (key_val \<circ> fst) kvs)"
| "py_tuple _ = Inl TypeError"

definition event_arg_types :: "TelemetryEvent \<Rightarrow> py_error + pyval list" where
  "event_arg_types ev =
     py_tuple (case dict_get (args_metadata ev) (KStr ''arg_types'') of
                 None \<Rightarrow> PList [] | Some v \<Rightarrow> v)"

definition create_fingerprint ::
  "stdlib \<Rightarrow> real \<Rightarrow> TelemetryEvent \<Rightarrow> py_error + PatternFingerprint" where
  "create_fingerprint L now ev =
     bind_err (event_arg_types ev) (\<lambda>ats.
     (let resource_sig = md5_hex8 L (sort_key fst (resource_tags ev));
          dmin = duration_ms ev * 0.9;
          dmax = duration_ms ev * 1.1
      in Inr \<lparr>fp_function_name = function_name ev, fp_module_name = module_name ev,
              duration_min = dmin, duration_max = dmax, arg_types = ats,
              resource_signature = resource_sig, fp_timestamp = now, hit_count = 1\<rparr>))"

definition to_key :: "PatternFingerprint \<Rightarrow> string" where
  "to_key fp = fp_function_name fp @ '':'' @ fp_module_name fp"

text \<open>\<^verbatim>\<open>min(items, key=lambda x: x[1])[0]\<close>: the first key with the least access time.\<close>

fun lru_item :: "(string \<times> real) \<Rightarrow> (string \<times> real) list \<Rightarrow> string \<times> real" where
  "lru_item best [] = best"
| "lru_item best (x # xs) = lru_item (if snd x < snd best then x else best) xs"

definition evict_lru :: "PatternMemoryCache \<Rightarrow> py_error + PatternMemoryCache" where
  "evict_lru c =
     (case access_times c of
        [] \<Rightarrow> Inr c
      | x # xs \<Rightarrow>
         (let lru_key = fst (lru_item x xs)
          in if dict_get (cache c) lru_key = None then Inl KeyError
             else Inr (c\<lparr>cache := dict_del (cache c) lru_key,
                         access_times := dict_del (access_times c) lru_key,
                         evictions := evictions c + 1\<rparr>)))"

text \<open>
  \<open>add_pattern\<close> reads the clock once for the fingerprint (\<open>t_fp\<close>) and then, on either
  branch, for the stored times (\<open>t1\<close>, \<open>t2\<close>).
\<close>

definition add_pattern ::
  "stdlib \<Rightarrow> real \<Rightarrow> real \<Rightarrow> real \<Rightarrow> PatternMemoryCache \<Rightarrow> TelemetryEvent
     \<Rightarrow> py_error + PatternMemoryCache" where
  "add_pattern L t_fp t1 t2 c ev =
     bind_err (create_fingerprint L t_fp ev) (\<lambda>fingerprint.
     (let key = to_key fingerprint
      in case dict_get (cache c) key of
           Some stored \<Rightarrow>
             Inr (c\<lparr>cache := dict_set (cache c) key
                                (stored\<lparr>hit_count := hit_count stored + 1, fp_timestamp := t1\<rparr>),
                     access_times := dict_set (access_times c) key t2\<rparr>)
         | None \<Rightarrow>
             bind_err (if int (length (cache c)) \<ge> pc_max_size c then evict_lru c else Inr c)
               (\<lambda>c'. Inr (c'\<lparr>cache := dict_set (cache c') key fingerprint,
                              access_times := dict_set (access_times c') key t1\<rparr>))))"

section \<open>SecurityValidator (\<^verbatim>\<open>pic/brain/security_validator.py\<close>)\<close>

record SecurityValidator =
  crypto :: CryptoCore
  nonce_expiry_seconds :: int
  max_nonce_cache :: nat
  seen_nonces :: "string set"
  nonce_timestamps :: "(string \<times> datetime) list"
  total_validations :: nat
  valid_events :: nat
  invalid_signatures :: nat
  replay_attacks :: nat
  expired_events :: nat

definition SecurityValidator_init :: "CryptoCore \<Rightarrow> int \<Rightarrow> nat \<Rightarrow> SecurityValidator" where
  "SecurityValidator_init c expiry max_cache =
     \<lparr>crypto = c, nonce_expiry_seconds = expiry, max_nonce_cache = max_cache,
      seen_nonces = {}, nonce_timestamps = [], total_validations = 0, valid_events = 0,
      invalid_signatures = 0, replay_attacks = 0, expired_events = 0\<rparr>"

text \<open>\<^verbatim>\<open>deque(maxlen=n).append\<close>: a full deque drops its leftmost item.\<close>

definition deque_append :: "nat \<Rightarrow> 'a list \<Rightarrow> 'a \<Rightarrow> 'a list" where
  "deque_append maxlen xs x =
     (if maxlen = 0 then xs
      else if length xs \<ge> maxlen then tl xs @ [x]
      else xs @ [x])"

text \<open>The \<^verbatim>\<open>while\<close> loop of \<open>cleanup_old_nonces\<close>, on the deque, the set and the counter.\<close>

fun cleanup_loop ::
  "real \<Rightarrow> (string \<times> datetime) list \<Rightarrow> string set \<Rightarrow> nat
     \<Rightarrow> (string \<times> datetime) list \<times> string set \<times> nat" where
  "cleanup_loop cutoff_time [] seen removed_count = ([], seen, removed_count)"
| "cleanup_loop cutoff_time ((n, ts) # rest) seen removed_count =
     (if total_seconds ts < cutoff_time
      then cleanup_loop cutoff_time rest (seen - {n}) (removed_count + 1)
      else ((n, ts) # rest, seen, removed_count))"

definition cleanup_old_nonces :: "datetime \<Rightarrow> SecurityValidator \<Rightarrow> nat \<times> SecurityValidator" where
  "cleanup_old_nonces now v =
     (let cutoff_time = total_seconds now - real_of_int (nonce_expiry_seconds v);
          (dq, seen, removed_count) =
             cleanup_loop cutoff_time (nonce_timestamps v) (seen_nonces v) 0
      in (removed_count, v\<lparr>nonce_timestamps := dq, seen_nonces := seen\<rparr>))"

definition is_replay_attack :: "SecurityValidator \<Rightarrow> string \<Rightarrow> datetime \<Rightarrow> bool" where
  "is_replay_attack v n ts = (n \<in> seen_nonces v)"

definition add_nonce :: "datetime \<Rightarrow> SecurityValidator \<Rightarrow> string \<Rightarrow> datetime \<Rightarrow> SecurityValidator" where
  "add_nonce now_cleanup v n ts =
     (let v1 = v\<lparr>seen_nonces := insert n (seen_nonces v),
                 nonce_timestamps := deque_append (max_nonce_cache v) (nonce_timestamps v) (n, ts)\<rparr>
      in if real (card (seen_nonces v1)) > real (max_nonce_cache v1) * 0.9
         then snd (cleanup_old_nonces now_cleanup v1)
         else v1)"

text \<open>
  \<open>verify_event\<close> reads the clock for the age of the event (\<open>now\<close>); the clean-up it may
  run reads it again (\<open>now_cleanup\<close>). The counters that were changed before an exception
  stay changed, so the validator is returned beside the result.
\<close>

definition verify_event ::
  "stdlib \<Rightarrow> datetime \<Rightarrow> datetime \<Rightarrow> SecurityValidator \<Rightarrow> SignedEvent
     \<Rightarrow> (py_error + bool \<times> string) \<times> SecurityValidator" where
  "verify_event L now now_cleanup v signed_event =
     (let v1 = v\<lparr>total_validations := total_validations v + 1\<rparr>;
          age_seconds = total_seconds (now - se_timestamp signed_event)
      in if age_seconds > real_of_int (nonce_expiry_seconds v1)
         then (Inr (False, ''Event expired (age: '' @ format_1f L age_seconds @ ''s)''),
               v1\<lparr>expired_events := expired_events v1 + 1\<rparr>)
         else if is_replay_attack v1 (se_nonce signed_event) (se_timestamp signed_event)
         then (Inr (False, ''Replay attack detected''),
               v1\<lparr>replay_attacks := replay_attacks v1 + 1\<rparr>)
         else
           (let event_dict = TelemetryEvent_to_dict L (se_event signed_event);
                sign_data = SignText event_dict (se_nonce signed_event)
                              (isoformat L (se_timestamp signed_event))
            in case verify_hmac L (crypto v1) sign_data (se_signature signed_event) of
                 Inl e \<Rightarrow> (Inl e, v1)
               | Inr is_valid \<Rightarrow>
                   if is_valid
                   then (Inr (True, ''Valid signature''),
                         add_nonce now_cleanup (v1\<lparr>valid_events := valid_events v1 + 1\<rparr>)
                           (se_nonce signed_event) (se_timestamp signed_event))
                   else (Inr (False, ''Invalid signature''),
                         v1\<lparr>invalid_signatures := invalid_signatures v1 + 1\<rparr>)))"

text \<open>
  A run of \<open>verify_event\<close> calls on one validator, each with its two clock readings;
  a call that raises keeps the counters it changed.
\<close>

fun verify_events ::
  "stdlib \<Rightarrow> (datetime \<times> datetime \<times> SignedEvent) list \<Rightarrow> SecurityValidator \<Rightarrow> SecurityValidator" where
  "verify_events L [] v = v"
| "verify_events L ((now, now_cleanup, se) # calls) v =
     verify_events L calls (snd (verify_event L now now_cleanup v se))"

text \<open>
  What holds of the nonce cache in every state that the validator reaches: each nonce of
  the deque is in the seen-set, and no nonce is in the deque twice.
\<close>

definition validator_inv :: "SecurityValidator \<Rightarrow> bool" where
  "validator_inv v =
     (fst ` set (nonce_timestamps v) \<subseteq> seen_nonces v \<and> distinct (map fst (nonce_timestamps v)))"

text \<open>
  A nonce is retained with timestamp \<open>T\<close>: it is in the seen-set, and the deque holds it
  with no other timestamp.
\<close>

definition retained :: "string \<Rightarrow> datetime \<Rightarrow> SecurityValidator \<Rightarrow> bool" where
  "retained n T v = (n \<in> seen_nonces v \<and> (\<forall>t. (n, t) \<in> set (nonce_timestamps v) \<longrightarrow> t = T))"

section \<open>BrainCore (\<^verbatim>\<open>pic/brain/core.py\<close>)\<close>

text \<open>
  The state of the orchestrator that \<open>process_signed_event\<close> reads or writes before it
  hands the event to \<open>process_event\<close>, and the components of the scoring pipeline.
  \<open>process_event\<close> itself is an argument of \<open>process_signed_event\<close>.
\<close>

record BrainCore =
  security_validator :: SecurityValidator
  audit_store :: AuditStore
  profiler :: BaselineProfiler
  pattern_cache :: "PatternMemoryCache option"
  anomaly_threshold :: real
  soft_allow_probability :: real
  events_processed :: nat
  security_violations :: nat
  soft_allows :: nat
  cache_hits :: nat

definition log_security_alert ::
  "stdlib \<Rightarrow> datetime \<Rightarrow> BrainCore \<Rightarrow> SignedEvent \<Rightarrow> string \<Rightarrow> py_error + BrainCore" where
  "log_security_alert L now b signed_event why =
     (let audit_event =
            \<lparr>ae_timestamp = now, ae_event_type = ''security_violation'',
             ae_actor = ''security_validator'', ae_action = ''block'', ae_result = why,
             ae_signature = [], ae_target = None, ae_anomaly_score = None,
             ae_metadata = None\<rparr>
      in bind_err (log_event L (audit_store b) audit_event)
           (\<lambda>st. Inr (b\<lparr>audit_store := st\<rparr>)))"

definition process_signed_event ::
  "stdlib \<Rightarrow> (BrainCore \<Rightarrow> TelemetryEvent \<Rightarrow> (py_error + Decision) \<times> BrainCore)
     \<Rightarrow> datetime \<Rightarrow> datetime \<Rightarrow> datetime \<Rightarrow> BrainCore \<Rightarrow> SignedEvent
     \<Rightarrow> (py_error + Decision) \<times> BrainCore" where
  "process_signed_event L process_event now now_cleanup now_log b signed_event =
     (case verify_event L now now_cleanup (security_validator b) signed_event of
        (Inl e, v') \<Rightarrow> (Inl e, b\<lparr>security_validator := v'\<rparr>)
      | (Inr (is_valid, why), v') \<Rightarrow>
          (let b1 = b\<lparr>security_validator := v'\<rparr>
           in if \<not> is_valid
              then (let b2 = b1\<lparr>security_violations := security_violations b1 + 1\<rparr>
                    in case log_security_alert L now_log b2 signed_event why of
                         Inl e \<Rightarrow> (Inl e, b2)
                       | Inr b3 \<Rightarrow>
                           (Inr (Decision_block (''Security violation: '' @ why) 1.0 None), b3))
              else process_event b1 (se_event signed_event)))"

text \<open>
  Step 5 of \<open>process_event\<close>: the decision taken from a score, the two zone boundaries
  derived from the anomaly threshold, the soft-allow probability and the number \<open>r\<close> that
  \<^verbatim>\<open>random.random()\<close> returns.
\<close>

definition soft_allow_threshold_high :: "real \<Rightarrow> real" where
  "soft_allow_threshold_high anomaly_thr = anomaly_thr"

definition scoring_decision :: "stdlib \<Rightarrow> real \<Rightarrow> real \<Rightarrow> real \<Rightarrow> real \<Rightarrow> Decision" where
  "scoring_decision L anomaly_thr soft_allow_prob r score =
     (if score < soft_allow_threshold_low anomaly_thr
      then Decision_allow ''Normal behavior'' score
      else if score < soft_allow_threshold_high anomaly_thr
      then (if r < soft_allow_prob
            then Decision_allow
                   (''Soft-allow (borderline, score='' @ format_1f L score @ '')'') score
            else Decision_block
                   (''Borderline anomaly (score='' @ format_1f L score @ '')'') score None)
      else Decision_block ''Anomaly detected'' score None)"

text \<open>
  The piecewise-linear map through the knots \<open>(0, 50)\<close>, \<open>(1, 84)\<close>, \<open>(2, 97.5)\<close>,
  \<open>(3, 99.9)\<close> and \<open>(13, 100)\<close>, constant 100 from distance 13 on.
\<close>

definition knot_percentile :: "real \<Rightarrow> real" where
  "knot_percentile d =
     (if d \<le> 1 then line_through 0 50 1 84 d
      else if d \<le> 2 then line_through 1 84 2 97.5 d
      else if d \<le> 3 then line_through 2 97.5 3 99.9 d
      else if d \<le> 13 then line_through 3 99.9 13 100 d
      else 100)"

section \<open>Example inputs\<close>

text \<open>
  Stand-ins for the library functions, used only to run the definitions on examples:
  a digest of one zero byte, the decimal number of microseconds as the ISO text (read back
  for the instant 0 only), and constant texts for the float format and the MD5 prefix.
\<close>

definition ex_lib :: stdlib where
  "ex_lib =
     \<lparr>hmac_sha256 = (\<lambda>key data. [0]),
      isoformat = str_of_int,
      fromisoformat = (\<lambda>s. if s = ''0'' then Inr 0 else Inl ValueError),
      format_1f = (\<lambda>r. ''0.0''),
      md5_hex8 = (\<lambda>items. ''00000000'')\<rparr>"

definition ex_event :: "real \<Rightarrow> TelemetryEvent" where
  "ex_event d =
     \<lparr>timestamp = 0, event_id = ''e1'', process_id = 1, thread_id = 1,
      function_name = ''f'', module_name = ''m'', duration_ms = d,
      args_metadata = [(KStr ''arg_count'', PInt 0), (KStr ''arg_types'', PList [])],
      resource_tags = [(''io_operations'', 0)], redaction_applied = False,
      sampling_rate = 1\<rparr>"

definition ex_baseline :: BaselineProfile where
  "ex_baseline =
     \<lparr>bl_function_name = ''f'', bl_module_name = ''m'', version = 1, created_at = 0,
      updated_at = 0, sample_count = 20, mean_duration_ms = 50, std_duration_ms = 2,
      p50_duration_ms = 50, p95_duration_ms = 53, p99_duration_ms = 54,
      historical_distances = []\<rparr>"

definition ex_queue :: "nat \<Rightarrow> EventQueue" where
  "ex_queue n =
     \<lparr>max_size = 10, backpressure_threshold = 0.8, queue = replicate n (ex_event 50),
      total_enqueued = n, total_dequeued = 0, total_dropped = 0\<rparr>"

definition ex_crypto :: CryptoCore where
  "ex_crypto = \<lparr>signing_key = [1, 2, 3]\<rparr>"

definition ex_validator :: SecurityValidator where
  "ex_validator = SecurityValidator_init ex_crypto 300 100000"

definition ex_signed :: "string \<Rightarrow> SignedEvent" where
  "ex_signed sig =
     \<lparr>se_event = ex_event 50, se_signature = sig, se_nonce = ''n1'', se_timestamp = 0\<rparr>"

definition ex_brain :: BrainCore where
  "ex_brain =
     \<lparr>security_validator = ex_validator,
      audit_store = \<lparr>log_lines = [], crypto_core = ex_crypto\<rparr>,
      profiler = BaselineProfiler_init 20,
      pattern_cache = Some \<lparr>ttl_seconds = 1800, pc_max_size = 10000, cache = [],
                              access_times = [], hits = 0, misses = 0, evictions = 0\<rparr>,
      anomaly_threshold = 65, soft_allow_probability = 0.15, events_processed = 0,
      security_violations = 0, soft_allows = 0, cache_hits = 0\<rparr>"

definition ex_cache :: PatternMemoryCache where
  "ex_cache =
     \<lparr>ttl_seconds = 1800, pc_max_size = 10000,
      cache = [(''f:m'', \<lparr>fp_function_name = ''f'', fp_module_name = ''m'', duration_min = 9,
                 duration_max = 11, arg_types = [], resource_signature = ''00000000'',
                 fp_timestamp = 100, hit_count = 1\<rparr>)],
      access_times = [(''f:m'', 100)], hits = 0, misses = 0, evictions = 0\<rparr>"

definition ex_decision :: "pyval \<Rightarrow> Decision" where
  "ex_decision v =
     \<lparr>d_action = ''allow'', d_reason = ''Normal behavior'', d_anomaly_score = 50,
      d_detector_id = None, d_metadata = Some [(KStr ''k'', v)]\<rparr>"

definition ex_store :: AuditStore where
  "ex_store = \<lparr>log_lines = [], crypto_core = ex_crypto\<rparr>"

definition ex_audit :: "(pykey \<times> pyval) list option \<Rightarrow> AuditEvent" where
  "ex_audit md =
     \<lparr>ae_timestamp = 0, ae_event_type = ''detection'', ae_actor = ''system'',
      ae_action = ''block'', ae_result = ''success'', ae_signature = [], ae_target = None,
      ae_anomaly_score = None, ae_metadata = md\<rparr>"

text \<open>
  The canonical encoding of \<open>ex_audit\<close> with the metadata
  \<^verbatim>\<open>{"counts": counts}\<close>, for a given JSON object \<open>counts\<close>.
\<close>

definition ex_signable :: "(string \<times> json) list \<Rightarrow> payload" where
  "ex_signable counts =
     JsonText (JObj
       [(''action'', JStr ''block''), (''actor'', JStr ''system''),
        (''anomaly_score'', JNull), (''event_type'', JStr ''detection''),
        (''metadata'', JObj [(''counts'', JObj counts)]),
        (''result'', JStr ''success''), (''target'', JNull),
        (''timestamp'', JStr ''0'')])"

section \<open>Properties of the anomaly score\<close>

lemma distance_to_percentile_mono:
  "x \<le> y \<Longrightarrow> distance_to_percentile x \<le> distance_to_percentile y"
  unfolding distance_to_percentile_def min_def
  apply (simp_all add: field_simps split: if_splits)
  apply (intro conjI impI; linarith)?
  done

lemma distance_to_percentile_bounds:
  "50 \<le> distance_to_percentile x \<and> distance_to_percentile x \<le> 100"
  unfolding distance_to_percentile_def min_def
  apply (simp_all add: field_simps split: if_splits)
  apply (intro conjI impI; linarith)?
  done

lemma compute_anomaly_score_eq:
  "compute_anomaly_score ev baseline = distance_to_percentile \<bar>spec_z ev baseline\<bar>"
proof -
  have "50 \<le> distance_to_percentile \<bar>spec_z ev baseline\<bar>"
       "distance_to_percentile \<bar>spec_z ev baseline\<bar> \<le> 100"
    using distance_to_percentile_bounds by blast+
  then show ?thesis
    by (simp add: compute_anomaly_score_def normalize_value_def spec_z_def Let_def)
qed

text \<open>
  Claim C3. Monotonicity of the anomaly score: for every baseline (any standard deviation,
  zero included) and every two events, the event whose duration lies strictly farther from
  the baseline mean receives a score at least as high as the other's.
\<close>

theorem C3_score_monotone:
  assumes "\<bar>duration_ms a - mean_duration_ms b\<bar> > \<bar>duration_ms a' - mean_duration_ms b\<bar>"
  shows "compute_anomaly_score a b \<ge> compute_anomaly_score a' b"
proof (cases "std_duration_ms b = 0")
  case True
  then show ?thesis by (simp add: compute_anomaly_score_eq spec_z_def)
next
  case False
  then have pos: "0 < \<bar>std_duration_ms b\<bar>" by simp
  have "\<bar>duration_ms a' - mean_duration_ms b\<bar> / \<bar>std_duration_ms b\<bar>
          \<le> \<bar>duration_ms a - mean_duration_ms b\<bar> / \<bar>std_duration_ms b\<bar>"
    using assms pos by (simp add: divide_right_mono)
  then have "\<bar>spec_z a' b\<bar> \<le> \<bar>spec_z a b\<bar>"
    using False by (simp add: spec_z_def)
  then show ?thesis
    by (simp add: compute_anomaly_score_eq distance_to_percentile_mono)
qed

theorem C3_score_monotone_witness:
  "\<bar>duration_ms (ex_event 500) - mean_duration_ms ex_baseline\<bar>
     > \<bar>duration_ms (ex_event 51) - mean_duration_ms ex_baseline\<bar>
   \<and> compute_anomaly_score (ex_event 500) ex_baseline
       \<ge> compute_anomaly_score (ex_event 51) ex_baseline"
proof -
  have h: "\<bar>duration_ms (ex_event 500) - mean_duration_ms ex_baseline\<bar>
             > \<bar>duration_ms (ex_event 51) - mean_duration_ms ex_baseline\<bar>"
    by (simp add: ex_event_def ex_baseline_def)
  from C3_score_monotone [OF h] h show ?thesis by blast
qed

text \<open>
  Claim C4, as the code has it. The score is the piecewise-linear map of the distance
  \<open>\<bar>z\<bar>\<close>, where \<open>z = (duration - mean) / std\<close> and \<open>z = 0\<close> when \<open>std = 0\<close>: 50 at
  distance 0, the straight lines 50 to 84 over \<open>[0, 1]\<close>, 84 to 97.5 over \<open>[1, 2]\<close>,
  97.5 to 99.9 over \<open>[2, 3]\<close> and 99.9 to 100 over \<open>[3, 13]\<close>, exactly 100 from distance
  13 on, and the result clamped to \<open>[0, 100]\<close>.
\<close>

theorem C4_score_piecewise_capped:
  "compute_anomaly_score ev b = min 100 (max 0 (knot_percentile \<bar>spec_z ev b\<bar>))"
proof -
  have eq: "distance_to_percentile d = knot_percentile d" if "0 \<le> d" for d
  proof (cases "d \<le> 3")
    case True
    with that show ?thesis
      unfolding distance_to_percentile_def knot_percentile_def line_through_def
      by (simp add: field_simps)
  next
    case False
    then have "distance_to_percentile d = 99.9 + min 0.1 ((d - 3) * 0.01)"
      by (simp add: distance_to_percentile_def)
    also have "\<dots> = (if d \<le> 13 then line_through 3 99.9 13 100 d else 100)"
      by (simp add: line_through_def min_def field_simps)
    finally show ?thesis using False by (simp add: knot_percentile_def)
  qed
  have "distance_to_percentile \<bar>spec_z ev b\<bar> = knot_percentile \<bar>spec_z ev b\<bar>"
    by (rule eq) simp
  moreover have "50 \<le> distance_to_percentile \<bar>spec_z ev b\<bar>"
    and "distance_to_percentile \<bar>spec_z ev b\<bar> \<le> 100"
    using distance_to_percentile_bounds by blast+
  ultimately show ?thesis
    by (simp add: compute_anomaly_score_eq)
qed

text \<open>
  Claim C4 as stated fails in its tail: the score does not approach 100 asymptotically
  beyond distance 3. It is exactly 100 at distance 13 and stays there, so an event at
  distance 20 scores no higher than one at distance 13.
\<close>

theorem C4_counterexample:
  "\<bar>spec_z (ex_event 76) ex_baseline\<bar> = 13
   \<and> compute_anomaly_score (ex_event 76) ex_baseline = 100
   \<and> \<bar>spec_z (ex_event 90) ex_baseline\<bar> = 20
   \<and> compute_anomaly_score (ex_event 90) ex_baseline = 100
   \<and> \<not> compute_anomaly_score (ex_event 76) ex_baseline
         < compute_anomaly_score (ex_event 90) ex_baseline"
  by (simp add: compute_anomaly_score_eq spec_z_def distance_to_percentile_def ex_event_def
      ex_baseline_def)

text \<open>The values at the knots.\<close>

lemma knot_percentile_knots:
  "knot_percentile 0 = 50" "knot_percentile 1 = 84" "knot_percentile 2 = 97.5"
  "knot_percentile 3 = 99.9" "knot_percentile 13 = 100"
  by (simp_all add: knot_percentile_def line_through_def)

text \<open>
  Claim C9. The score of every event against every baseline lies in \<open>[50, 100]\<close>, so a
  score below 50 never comes from the scoring pipeline; with an anomaly threshold of 60
  or lower the clear-normal zone \<open>score < soft_allow_threshold_low\<close> (which is
  \<open>max (threshold - 10) 0\<close>) is never entered by a computed score, and the decision taken
  from a computed score is never the clear allow \<^verbatim>\<open>Normal behavior\<close>.
\<close>

theorem C9_score_at_least_50:
  "50 \<le> compute_anomaly_score ev b \<and> compute_anomaly_score ev b \<le> 100 \<and>
   (thr \<le> 60 \<longrightarrow>
      \<not> compute_anomaly_score ev b < soft_allow_threshold_low thr \<and>
      d_reason (scoring_decision L thr p r (compute_anomaly_score ev b)) \<noteq> ''Normal behavior'')"
proof -
  have b: "50 \<le> compute_anomaly_score ev b" "compute_anomaly_score ev b \<le> 100"
    using distance_to_percentile_bounds by (simp_all add: compute_anomaly_score_eq)
  have "soft_allow_threshold_low thr \<le> 50" if "thr \<le> 60"
    using that by (simp add: soft_allow_threshold_low_def)
  with b have z: "\<not> compute_anomaly_score ev b < soft_allow_threshold_low thr" if "thr \<le> 60"
    using that by fastforce
  then have "d_reason (scoring_decision L thr p r (compute_anomaly_score ev b))
               \<noteq> ''Normal behavior''" if "thr \<le> 60"
    using that by (simp add: scoring_decision_def Decision_allow_def Decision_block_def)
  with b z show ?thesis by blast
qed

theorem C9_score_at_least_50_witness:
  "(60::real) \<le> 60 \<and> 50 \<le> compute_anomaly_score (ex_event 50) ex_baseline \<and>
   \<not> compute_anomaly_score (ex_event 50) ex_baseline < soft_allow_threshold_low 60 \<and>
   d_action (scoring_decision ex_lib 60 0.15 0.5
               (compute_anomaly_score (ex_event 50) ex_baseline)) = ''block''"
proof -
  have s: "compute_anomaly_score (ex_event 50) ex_baseline = 50"
    by (simp add: compute_anomaly_score_eq spec_z_def distance_to_percentile_def ex_event_def
        ex_baseline_def)
  have d: "d_action (scoring_decision ex_lib 60 0.15 0.5 50) = ''block''"
    by (simp add: scoring_decision_def soft_allow_threshold_low_def
        soft_allow_threshold_high_def Decision_block_def)
  from C9_score_at_least_50 [of "ex_event 50" ex_baseline 60 ex_lib "0.15" "0.5"] s d
  show ?thesis by simp
qed

section \<open>Properties of the backpressure controller\<close>

text \<open>
  Claim C7. The recommended rate is 0.10 for a utilization of at least 0.95, 0.25 from
  0.90, 0.50 from 0.80, 0.75 from 0.70 and 1.00 below, every boundary inclusive: a
  utilization of exactly 0.8 gives 0.50, and \<open>has_backpressure\<close> is true exactly when the
  utilization of the queue is at least its backpressure threshold.
\<close>

theorem C7_recommended_rate:
  "get_recommended_rate q (Some u) =
     Inr (if 0.95 \<le> u then 0.10 else if 0.90 \<le> u then 0.25 else if 0.80 \<le> u then 0.50
          else if 0.70 \<le> u then 0.75 else 1.00)
   \<and> get_recommended_rate q (Some 0.8) = Inr 0.5
   \<and> get_recommended_rate q (Some 0.96) = Inr 0.1
   \<and> get_recommended_rate q (Some 0.5) = Inr 1
   \<and> (get_utilization q = Inr u \<longrightarrow>
        has_backpressure q = Inr (backpressure_threshold q \<le> u)
        \<and> get_recommended_rate q None = get_recommended_rate q (Some u))"
  by (simp add: get_recommended_rate_def has_backpressure_def)

theorem C7_recommended_rate_witness:
  "get_utilization (ex_queue 8) = Inr 0.8
   \<and> has_backpressure (ex_queue 8) = Inr True
   \<and> get_recommended_rate (ex_queue 8) None = Inr 0.5"
proof -
  have u: "get_utilization (ex_queue 8) = Inr 0.8"
    by (simp add: get_utilization_def ex_queue_def)
  have "backpressure_threshold (ex_queue 8) = 0.8"
    by (simp add: ex_queue_def)
  with C7_recommended_rate [of "ex_queue 8" "0.8"] u show ?thesis
    by simp
qed

section \<open>Properties of the security validator\<close>

lemma cleanup_loop_seen:
  "cleanup_loop c dq seen k = (dq', seen', k') \<Longrightarrow>
   n \<in> seen \<Longrightarrow> (\<forall>t. (n, t) \<in> set dq \<longrightarrow> \<not> total_seconds t < c) \<Longrightarrow> n \<in> seen'"
proof (induction c dq seen k rule: cleanup_loop.induct)
  case (1 c seen k)
  then show ?case by simp
next
  case (2 c m ts rest seen k)
  show ?case
  proof (cases "total_seconds ts < c")
    case True
    with "2.prems" have "m \<noteq> n" by auto
    with True "2.prems" "2.IH" show ?thesis by auto
  next
    case False
    with "2.prems" show ?thesis by auto
  qed
qed

lemma cleanup_loop_suffix:
  "cleanup_loop c dq seen k = (dq', seen', k') \<Longrightarrow> set dq' \<subseteq> set dq"
  by (induction c dq seen k rule: cleanup_loop.induct) (auto split: if_splits)

lemma cleanup_loop_inv:
  "cleanup_loop c dq seen k = (dq', seen', k') \<Longrightarrow>
   fst ` set dq \<subseteq> seen \<Longrightarrow> distinct (map fst dq) \<Longrightarrow>
   fst ` set dq' \<subseteq> seen' \<and> distinct (map fst dq')"
proof (induction c dq seen k rule: cleanup_loop.induct)
  case (1 c seen k)
  then show ?case by simp
next
  case (2 c m ts rest seen k)
  show ?case
  proof (cases "total_seconds ts < c")
    case True
    have "fst ` set rest \<subseteq> seen - {m}" using "2.prems" by auto
    moreover have "distinct (map fst rest)" using "2.prems" by simp
    ultimately show ?thesis using True "2.prems"(1) "2.IH" by simp
  next
    case False
    with "2.prems" show ?thesis by auto
  qed
qed

lemma set_deque_append: "set (deque_append m xs x) \<subseteq> insert x (set xs)"
  by (cases xs) (auto simp: deque_append_def)

lemma distinct_deque_append:
  "distinct (map fst xs) \<Longrightarrow> fst x \<notin> fst ` set xs \<Longrightarrow> distinct (map fst (deque_append m xs x))"
  by (cases xs) (auto simp: deque_append_def)

lemma add_nonce_retained:
  assumes ent: "\<forall>t. (n, t) \<in> set (nonce_timestamps v) \<longrightarrow> t = T"
    and mem: "n \<in> insert m (seen_nonces v)"
    and same: "m = n \<longrightarrow> ts = T"
    and bound: "total_seconds nc - real_of_int (nonce_expiry_seconds v) \<le> total_seconds T"
  shows "retained n T (add_nonce nc v m ts)"
proof -
  let ?v1 = "v\<lparr>seen_nonces := insert m (seen_nonces v),
               nonce_timestamps := deque_append (max_nonce_cache v) (nonce_timestamps v) (m, ts)\<rparr>"
  have r1: "retained n T ?v1"
    using ent mem same set_deque_append[of "max_nonce_cache v" "nonce_timestamps v" "(m, ts)"]
    by (auto simp: retained_def)
  show ?thesis
  proof (cases "real (card (seen_nonces ?v1)) > real (max_nonce_cache ?v1) * 0.9")
    case False
    then show ?thesis using r1 by (simp add: add_nonce_def Let_def)
  next
    case True
    obtain dq' seen' k' where cl: "cleanup_loop (total_seconds nc - real_of_int (nonce_expiry_seconds v))
        (nonce_timestamps ?v1) (seen_nonces ?v1) 0 = (dq', seen', k')"
      by (metis prod_cases3)
    have a: "n \<in> seen_nonces ?v1" using r1 by (simp add: retained_def)
    have b: "\<forall>t. (n, t) \<in> set (nonce_timestamps ?v1) \<longrightarrow>
               \<not> total_seconds t < total_seconds nc - real_of_int (nonce_expiry_seconds v)"
      using r1 bound by (auto simp: retained_def)
    have "n \<in> seen'"
      by (rule cleanup_loop_seen[OF cl a b])
    moreover have "set dq' \<subseteq> set (nonce_timestamps ?v1)"
      using cleanup_loop_suffix[OF cl] .
    ultimately have "retained n T (?v1\<lparr>nonce_timestamps := dq', seen_nonces := seen'\<rparr>)"
      using r1 by (auto simp: retained_def)
    then show ?thesis using True cl
      by (simp add: add_nonce_def Let_def cleanup_old_nonces_def)
  qed
qed

lemma add_nonce_expiry [simp]: "nonce_expiry_seconds (add_nonce nc v m ts) = nonce_expiry_seconds v"
  by (simp add: add_nonce_def Let_def cleanup_old_nonces_def split: prod.splits)

lemma verify_event_expiry [simp]:
  "nonce_expiry_seconds (snd (verify_event L now nc v se)) = nonce_expiry_seconds v"
  by (simp add: verify_event_def Let_def split: sum.splits)

lemma verify_event_retained:
  assumes r: "retained n T v"
    and bound: "total_seconds nc - real_of_int (nonce_expiry_seconds v) \<le> total_seconds T"
  shows "retained n T (snd (verify_event L now nc v se))"
proof -
  let ?v2 = "v\<lparr>total_validations := total_validations v + 1, valid_events := valid_events v + 1\<rparr>"
  have "retained n T (add_nonce nc ?v2 (se_nonce se) (se_timestamp se))"
    if "se_nonce se \<notin> seen_nonces v"
  proof (rule add_nonce_retained)
    show "\<forall>t. (n, t) \<in> set (nonce_timestamps ?v2) \<longrightarrow> t = T"
      using r by (simp add: retained_def)
    show "n \<in> insert (se_nonce se) (seen_nonces ?v2)"
      using r by (simp add: retained_def)
    show "se_nonce se = n \<longrightarrow> se_timestamp se = T"
      using r that by (auto simp: retained_def)
    show "total_seconds nc - real_of_int (nonce_expiry_seconds ?v2) \<le> total_seconds T"
      using bound by simp
  qed
  then show ?thesis using r
    by (auto simp: verify_event_def Let_def is_replay_attack_def retained_def split: sum.splits)
qed

lemma verify_events_retained:
  assumes "retained n T v"
    and "\<forall>(now, nc, se) \<in> set calls.
           total_seconds nc - real_of_int (nonce_expiry_seconds v) \<le> total_seconds T"
  shows "retained n T (verify_events L calls v)"
  using assms
proof (induction calls arbitrary: v)
  case Nil
  then show ?case by simp
next
  case (Cons c calls)
  obtain now nc se where c: "c = (now, nc, se)" by (cases c) auto
  have "retained n T (snd (verify_event L now nc v se))"
    using Cons.prems c by (intro verify_event_retained) auto
  moreover have "\<forall>(now', nc', se') \<in> set calls.
      total_seconds nc' - real_of_int (nonce_expiry_seconds (snd (verify_event L now nc v se)))
        \<le> total_seconds T"
    using Cons.prems(2) by auto
  ultimately show ?case using Cons.IH c by simp
qed

lemma verify_events_expiry [simp]:
  "nonce_expiry_seconds (verify_events L calls v) = nonce_expiry_seconds v"
  by (induction calls arbitrary: v) auto

lemma verify_event_accepted:
  assumes inv: "validator_inv v"
    and acc: "verify_event L now nc v se = (Inr (True, why), v')"
    and bound: "total_seconds nc - real_of_int (nonce_expiry_seconds v)
                  \<le> total_seconds (se_timestamp se)"
  shows "retained (se_nonce se) (se_timestamp se) v'"
proof -
  let ?v2 = "v\<lparr>total_validations := total_validations v + 1, valid_events := valid_events v + 1\<rparr>"
  from acc have fresh: "se_nonce se \<notin> seen_nonces v"
    and v': "v' = add_nonce nc ?v2 (se_nonce se) (se_timestamp se)"
    by (auto simp: verify_event_def Let_def is_replay_attack_def split: if_splits sum.splits)
  from inv fresh have none: "\<forall>t. (se_nonce se, t) \<notin> set (nonce_timestamps v)"
    by (force simp: validator_inv_def)
  show ?thesis unfolding v'
  proof (rule add_nonce_retained)
    show "\<forall>t. (se_nonce se, t) \<in> set (nonce_timestamps ?v2) \<longrightarrow> t = se_timestamp se"
      using none by simp
  qed (use bound in simp_all)
qed

lemma verify_event_replay:
  assumes "se_nonce se \<in> seen_nonces v"
    and "\<not> total_seconds (now - se_timestamp se) > real_of_int (nonce_expiry_seconds v)"
  shows "fst (verify_event L now nc v se) = Inr (False, ''Replay attack detected'')"
  using assms by (simp add: verify_event_def Let_def is_replay_attack_def)

text \<open>The invariant holds initially and after every call.\<close>

lemma validator_inv_init: "validator_inv (SecurityValidator_init c e m)"
  by (simp add: validator_inv_def SecurityValidator_init_def)

lemma add_nonce_inv:
  assumes inv: "validator_inv v" and fresh: "m \<notin> seen_nonces v"
  shows "validator_inv (add_nonce nc v m ts)"
proof -
  let ?v1 = "v\<lparr>seen_nonces := insert m (seen_nonces v),
               nonce_timestamps := deque_append (max_nonce_cache v) (nonce_timestamps v) (m, ts)\<rparr>"
  have nin: "m \<notin> fst ` set (nonce_timestamps v)"
    using inv fresh by (auto simp: validator_inv_def)
  have "fst ` set (deque_append (max_nonce_cache v) (nonce_timestamps v) (m, ts))
          \<subseteq> fst ` insert (m, ts) (set (nonce_timestamps v))"
    by (rule image_mono) (rule set_deque_append)
  then have i1: "fst ` set (nonce_timestamps ?v1) \<subseteq> seen_nonces ?v1"
    using inv by (auto simp: validator_inv_def)
  have d1: "distinct (map fst (nonce_timestamps ?v1))"
    using inv nin by (simp add: validator_inv_def distinct_deque_append)
  show ?thesis
  proof (cases "real (card (seen_nonces ?v1)) > real (max_nonce_cache ?v1) * 0.9")
    case False
    then show ?thesis using i1 d1 by (simp add: add_nonce_def Let_def validator_inv_def)
  next
    case True
    obtain dq' seen' k' where cl: "cleanup_loop (total_seconds nc - real_of_int (nonce_expiry_seconds v))
        (nonce_timestamps ?v1) (seen_nonces ?v1) 0 = (dq', seen', k')"
      by (metis prod_cases3)
    from cleanup_loop_inv[OF cl i1 d1] True cl show ?thesis
      by (simp add: add_nonce_def Let_def cleanup_old_nonces_def validator_inv_def)
  qed
qed

lemma verify_event_inv:
  assumes "validator_inv v"
  shows "validator_inv (snd (verify_event L now nc v se))"
proof -
  let ?v2 = "v\<lparr>total_validations := total_validations v + 1, valid_events := valid_events v + 1\<rparr>"
  have "validator_inv ?v2" using assms by (simp add: validator_inv_def)
  then have "validator_inv (add_nonce nc ?v2 (se_nonce se) (se_timestamp se))"
    if "se_nonce se \<notin> seen_nonces v"
    using that by (intro add_nonce_inv) auto
  then show ?thesis using assms
    by (auto simp: verify_event_def Let_def is_replay_attack_def validator_inv_def split: sum.splits)
qed

lemma verify_events_inv:
  "validator_inv v \<Longrightarrow> validator_inv (verify_events L calls v)"
  by (induction calls arbitrary: v) (auto simp: verify_event_inv)

text \<open>
  Claim C2, as the code has it. A nonce enters the seen-set only when \<open>verify_event\<close>
  accepts its event. Once a call has accepted an event, every later call on the same
  validator with the same nonce and a fresh timestamp is rejected with the reason
  \<^verbatim>\<open>Replay attack detected\<close>, whatever its signature, provided no clean-up between
  the two calls read the clock later than the accepted event's timestamp plus the expiry
  window (the clean-up evicts only nonces whose timestamps are older than that).
\<close>

theorem C2_replay_after_accepted:
  assumes inv: "validator_inv v0"
    and first: "verify_event L now1 nc1 v0 se1 = (Inr (True, why), v1)"
    and bound1: "total_seconds nc1 - real_of_int (nonce_expiry_seconds v0)
                   \<le> total_seconds (se_timestamp se1)"
    and between: "\<forall>(now, nc, se) \<in> set calls.
                    total_seconds nc - real_of_int (nonce_expiry_seconds v0)
                      \<le> total_seconds (se_timestamp se1)"
    and same: "se_nonce se2 = se_nonce se1"
    and fresh2: "\<not> total_seconds (now2 - se_timestamp se2) > real_of_int (nonce_expiry_seconds v0)"
  shows "fst (verify_event L now2 nc2 (verify_events L calls v1) se2)
           = Inr (False, ''Replay attack detected'')"
proof -
  have e1: "nonce_expiry_seconds v1 = nonce_expiry_seconds v0"
    using verify_event_expiry[of L now1 nc1 v0 se1] first by simp
  have "retained (se_nonce se1) (se_timestamp se1) v1"
    by (rule verify_event_accepted[OF inv first bound1])
  then have "retained (se_nonce se1) (se_timestamp se1) (verify_events L calls v1)"
    using between e1 by (intro verify_events_retained) auto
  then have "se_nonce se2 \<in> seen_nonces (verify_events L calls v1)"
    using same by (simp add: retained_def)
  then show ?thesis
    using fresh2 e1 by (intro verify_event_replay) auto
qed

lemma hexdigest_zero: "hexdigest [0] = ''00''"
  by (simp add: hexdigest_def hex_char_def)

lemma ex_first_invalid:
  "verify_event ex_lib 0 0 ex_validator (ex_signed ''zz'')
     = (Inr (False, ''Invalid signature''),
        ex_validator\<lparr>total_validations := 1, invalid_signatures := 1\<rparr>)"
  by (simp add: verify_event_def Let_def is_replay_attack_def ex_validator_def
      SecurityValidator_init_def ex_signed_def total_seconds_def verify_hmac_def
      verify_signature_def compare_digest_def is_ascii_def hmac_sign_def ex_lib_def hexdigest_zero)

text \<open>
  Claim C2 as stated fails: after a first event whose signature is invalid, a second event
  with the same nonce is not reported as a replay; it is accepted when its signature is
  valid and rejected with \<^verbatim>\<open>Invalid signature\<close> when it is not.
\<close>

theorem C2_counterexample:
  "fst (verify_event ex_lib 0 0 (snd (verify_event ex_lib 0 0 ex_validator (ex_signed ''zz'')))
          (ex_signed ''00'')) = Inr (True, ''Valid signature'')
   \<and> fst (verify_event ex_lib 0 0 (snd (verify_event ex_lib 0 0 ex_validator (ex_signed ''zz'')))
          (ex_signed ''zz'')) = Inr (False, ''Invalid signature'')"
  unfolding ex_first_invalid
  by (simp add: verify_event_def Let_def is_replay_attack_def ex_validator_def
      SecurityValidator_init_def ex_signed_def total_seconds_def verify_hmac_def
      verify_signature_def compare_digest_def is_ascii_def hmac_sign_def ex_lib_def hexdigest_zero)

lemma ex_first_valid:
  "fst (verify_event ex_lib 0 0 ex_validator (ex_signed ''00'')) = Inr (True, ''Valid signature'')"
  by (simp add: verify_event_def Let_def is_replay_attack_def ex_validator_def
      SecurityValidator_init_def ex_signed_def total_seconds_def verify_hmac_def
      verify_signature_def compare_digest_def is_ascii_def hmac_sign_def ex_lib_def hexdigest_zero)

theorem C2_replay_after_accepted_witness:
  "validator_inv ex_validator
   \<and> fst (verify_event ex_lib 0 0 ex_validator (ex_signed ''00'')) = Inr (True, ''Valid signature'')
   \<and> se_nonce (ex_signed ''zz'') = se_nonce (ex_signed ''00'')
   \<and> fst (verify_event ex_lib 0 0
         (verify_events ex_lib [(0, 0, ex_signed ''zz'')]
            (snd (verify_event ex_lib 0 0 ex_validator (ex_signed ''00''))))
         (ex_signed ''zz'')) = Inr (False, ''Replay attack detected'')"
proof -
  have inv: "validator_inv ex_validator"
    by (simp add: ex_validator_def validator_inv_init)
  have first: "verify_event ex_lib 0 0 ex_validator (ex_signed ''00'')
      = (Inr (True, ''Valid signature''), snd (verify_event ex_lib 0 0 ex_validator (ex_signed ''00'')))"
    using ex_first_valid by (metis prod.collapse)
  have bound1: "total_seconds 0 - real_of_int (nonce_expiry_seconds ex_validator)
                   \<le> total_seconds (se_timestamp (ex_signed ''00''))"
    by (simp add: total_seconds_def ex_validator_def SecurityValidator_init_def ex_signed_def)
  have between: "\<forall>(now, nc, se) \<in> set [(0, 0, ex_signed ''zz'')].
                    total_seconds nc - real_of_int (nonce_expiry_seconds ex_validator)
                      \<le> total_seconds (se_timestamp (ex_signed ''00''))"
    by (simp add: total_seconds_def ex_validator_def SecurityValidator_init_def ex_signed_def)
  have same: "se_nonce (ex_signed ''zz'') = se_nonce (ex_signed ''00'')"
    by (simp add: ex_signed_def)
  have fresh2: "\<not> total_seconds (0 - se_timestamp (ex_signed ''zz''))
                   > real_of_int (nonce_expiry_seconds ex_validator)"
    by (simp add: total_seconds_def ex_validator_def SecurityValidator_init_def ex_signed_def)
  from C2_replay_after_accepted [OF inv first bound1 between same fresh2] inv ex_first_valid same
  show ?thesis by blast
qed

section \<open>Properties of BrainCore.process_signed_event\<close>

text \<open>
  Whenever \<open>verify_event\<close> returns a rejection (expired, replay or invalid signature),
  \<open>process_signed_event\<close> adds one to the violation counter, appends one signed audit
  record of type \<^verbatim>\<open>security_violation\<close>, and returns the block decision with the
  reason of the validator and score 1.0. The result does not depend on \<open>process_event\<close>,
  and the profiler, the pattern cache and the other counters are as before.
\<close>

lemma signable_security_violation:
  "get_signable_data L \<lparr>ae_timestamp = nl, ae_event_type = ''security_violation'',
             ae_actor = ''security_validator'', ae_action = ''block'', ae_result = why,
             ae_signature = sg, ae_target = None, ae_anomaly_score = None,
             ae_metadata = None\<rparr>
   = Inr (JsonText (JObj
      [(''action'', JStr ''block''),
       (''actor'', JStr ''security_validator''), (''anomaly_score'', JNull),
       (''event_type'', JStr ''security_violation''), (''metadata'', JNull),
       (''result'', JStr why), (''target'', JNull),
       (''timestamp'', JStr (isoformat L nl))]))"
  by (simp add: get_signable_data_def bind_err_def AuditEvent_to_dict_def sorted_items_def
      optional_val_def)

lemma log_security_alert_ok:
  "\<exists>e d line.
     ae_event_type e = ''security_violation'' \<and> ae_actor e = ''security_validator'' \<and>
     ae_action e = ''block'' \<and> ae_result e = why \<and> ae_timestamp e = nl \<and>
     get_signable_data L e = Inr d \<and>
     ae_signature e = hmac_sign L (crypto_core (audit_store b)) d \<and>
     AuditEvent_to_json L e = Inr line \<and>
     log_security_alert L nl b se why =
       Inr (b\<lparr>audit_store := (audit_store b)\<lparr>log_lines := log_lines (audit_store b) @ [line]\<rparr>\<rparr>)"
proof -
  let ?d = "JsonText (JObj
      [(''action'', JStr ''block''),
       (''actor'', JStr ''security_validator''), (''anomaly_score'', JNull),
       (''event_type'', JStr ''security_violation''), (''metadata'', JNull),
       (''result'', JStr why), (''target'', JNull),
       (''timestamp'', JStr (isoformat L nl))])"
  let ?e = "\<lparr>ae_timestamp = nl, ae_event_type = ''security_violation'',
             ae_actor = ''security_validator'', ae_action = ''block'', ae_result = why,
             ae_signature = hmac_sign L (crypto_core (audit_store b)) ?d, ae_target = None,
             ae_anomaly_score = None, ae_metadata = None\<rparr>"
  obtain line where line: "AuditEvent_to_json L ?e = Inr line"
    by (simp add: AuditEvent_to_json_def AuditEvent_to_dict_def optional_val_def)
  have "log_security_alert L nl b se why =
       Inr (b\<lparr>audit_store := (audit_store b)\<lparr>log_lines := log_lines (audit_store b) @ [line]\<rparr>\<rparr>)"
    using line by (simp add: log_security_alert_def log_event_def signable_security_violation
        bind_err_def Let_def)
  moreover have "get_signable_data L ?e = Inr ?d"
    by (rule signable_security_violation)
  ultimately show ?thesis using line
    by (intro exI[of _ ?e] exI[of _ ?d] exI[of _ line]) simp
qed

lemma process_signed_event_rejected:
  assumes "verify_event L now nc (security_validator b) se = (Inr (False, why), v')"
  shows "\<exists>e d line.
     ae_event_type e = ''security_violation'' \<and> ae_actor e = ''security_validator'' \<and>
     ae_action e = ''block'' \<and> ae_result e = why \<and> ae_timestamp e = nl \<and>
     get_signable_data L e = Inr d \<and>
     ae_signature e = hmac_sign L (crypto_core (audit_store b)) d \<and>
     AuditEvent_to_json L e = Inr line \<and>
     process_signed_event L pe now nc nl b se =
       (Inr (Decision_block (''Security violation: '' @ why) 1 None),
        b\<lparr>security_validator := v',
          security_violations := security_violations b + 1,
          audit_store := (audit_store b)\<lparr>log_lines := log_lines (audit_store b) @ [line]\<rparr>\<rparr>)"
proof -
  let ?b2 = "b\<lparr>security_validator := v', security_violations := security_violations b + 1\<rparr>"
  obtain e d line where e: "ae_event_type e = ''security_violation''"
      "ae_actor e = ''security_validator''" "ae_action e = ''block''" "ae_result e = why"
      "ae_timestamp e = nl" "get_signable_data L e = Inr d"
      "ae_signature e = hmac_sign L (crypto_core (audit_store ?b2)) d"
      "AuditEvent_to_json L e = Inr line"
      "log_security_alert L nl ?b2 se why =
         Inr (?b2\<lparr>audit_store := (audit_store ?b2)\<lparr>log_lines := log_lines (audit_store ?b2) @ [line]\<rparr>\<rparr>)"
    using log_security_alert_ok[where L=L and why=why and nl=nl and b="?b2" and se=se] by blast
  have "process_signed_event L pe now nc nl b se =
       (Inr (Decision_block (''Security violation: '' @ why) 1 None),
        b\<lparr>security_validator := v',
          security_violations := security_violations b + 1,
          audit_store := (audit_store b)\<lparr>log_lines := log_lines (audit_store b) @ [line]\<rparr>\<rparr>)"
    using assms e(9) by (simp add: process_signed_event_def Let_def)
  with e show ?thesis by auto
qed

lemma is_ascii_e9: "\<not> is_ascii [CHR 0xE9]"
  by (simp add: is_ascii_def)

text \<open>
  Claim C1 says that every signed event whose verification fails, an invalid signature
  included, is answered by a block decision, one more security violation and one audit
  record. For a signature with a character outside ASCII the code does none of this:
  \<^verbatim>\<open>hmac.compare_digest\<close> raises TypeError inside \<open>verify_event\<close>, and the
  exception leaves \<open>process_signed_event\<close> with the counter and the audit log untouched.
\<close>

theorem C1_non_ascii_signature_raises:
  "fst (process_signed_event L pe 0 0 0 ex_brain (ex_signed [CHR 0xE9])) = Inl TypeError
   \<and> security_violations (snd (process_signed_event L pe 0 0 0 ex_brain (ex_signed [CHR 0xE9]))) = 0
   \<and> log_lines (audit_store (snd (process_signed_event L pe 0 0 0 ex_brain (ex_signed [CHR 0xE9])))) = []"
  by (simp add: process_signed_event_def verify_event_def Let_def is_replay_attack_def
      ex_brain_def ex_validator_def SecurityValidator_init_def ex_signed_def total_seconds_def
      verify_hmac_def verify_signature_def compare_digest_def is_ascii_e9)

section \<open>Properties of the baseline profiler\<close>


lemma min_samples_add_sample [simp]: "min_samples (add_sample p e) = min_samples p"
  by (simp add: add_sample_def Let_def)



lemma min_samples_add_samples [simp]: "min_samples (add_samples p evs) = min_samples p"
  unfolding add_samples_def by (induction evs arbitrary: p) auto




lemma get_samples_init [simp]: "get_samples (BaselineProfiler_init n) key = []"
  by (simp add: get_samples_def BaselineProfiler_init_def)

lemma min_samples_init [simp]: "min_samples (BaselineProfiler_init n) = n"
  by (simp add: BaselineProfiler_init_def)

text \<open>
  Samples are stored under the string \<open>module_name @ ''.'' @ function_name\<close>, so two
  (function, module) pairs that join to the same string share their samples.
\<close>

lemma sample_key_collision:
  "sample_key ''c'' ''a.b'' = sample_key ''b.c'' ''a''"
  by (simp add: sample_key_def)




section \<open>Properties of the pattern cache\<close>

lemma dict_get_dict_set:
  "dict_get (dict_set d k v) k' = (if k' = k then Some v else dict_get d k')"
  by (induction d) auto

lemma keys_dict_set_present:
  "dict_get d k \<noteq> None \<Longrightarrow> map fst (dict_set d k v) = map fst d"
  by (induction d) auto

lemma to_key_create_fingerprint:
  "create_fingerprint L t ev = Inr fp \<Longrightarrow> to_key fp = function_name ev @ '':'' @ module_name ev"
  by (auto simp: create_fingerprint_def to_key_def bind_err_def Let_def split: sum.splits)

lemma create_fingerprint_error:
  "create_fingerprint L t ev = Inl e \<longleftrightarrow> event_arg_types ev = Inl e"
  by (auto simp: create_fingerprint_def bind_err_def Let_def split: sum.splits)

text \<open>
  Claim C10. When \<open>add_pattern\<close> is called for an event whose key
  \<open>function_name:module_name\<close> is already in the cache, the stored fingerprint changes in
  its timestamp and hit count only (its names, duration range, argument types and resource
  signature stay as stored), every other entry is as before, the keys of the cache and so
  its size are unchanged, nothing is evicted, and the access time of the key is refreshed.
  The call raises, changing nothing, exactly when the \<^verbatim>\<open>arg_types\<close> entry of the event
  is not iterable.
\<close>

theorem C10_add_pattern_existing_key:
  assumes "dict_get (cache c) (function_name ev @ '':'' @ module_name ev) = Some stored"
  shows "(case add_pattern L t_fp t1 t2 c ev of
            Inl e \<Rightarrow> event_arg_types ev = Inl e
          | Inr c' \<Rightarrow>
              (\<exists>ats. event_arg_types ev = Inr ats) \<and>
              dict_get (cache c') (function_name ev @ '':'' @ module_name ev)
                = Some (stored\<lparr>hit_count := hit_count stored + 1, fp_timestamp := t1\<rparr>) \<and>
              (\<forall>k. k \<noteq> function_name ev @ '':'' @ module_name ev \<longrightarrow>
                   dict_get (cache c') k = dict_get (cache c) k) \<and>
              map fst (cache c') = map fst (cache c) \<and>
              length (cache c') = length (cache c) \<and>
              evictions c' = evictions c \<and>
              access_times c' = dict_set (access_times c) (function_name ev @ '':'' @ module_name ev) t2 \<and>
              hits c' = hits c \<and> misses c' = misses c \<and>
              ttl_seconds c' = ttl_seconds c \<and> pc_max_size c' = pc_max_size c)"
proof (cases "create_fingerprint L t_fp ev")
  case (Inl e)
  then have "event_arg_types ev = Inl e" by (simp add: create_fingerprint_error)
  with Inl show ?thesis
    by (simp add: add_pattern_def bind_err_def)
next
  case (Inr fp)
  let ?key = "function_name ev @ '':'' @ module_name ev"
  have key: "to_key fp = ?key" by (rule to_key_create_fingerprint[OF Inr])
  have ats: "\<exists>ats. event_arg_types ev = Inr ats"
    using Inr by (auto simp: create_fingerprint_def bind_err_def split: sum.splits)
  have "add_pattern L t_fp t1 t2 c ev =
      Inr (c\<lparr>cache := dict_set (cache c) ?key
                 (stored\<lparr>hit_count := hit_count stored + 1, fp_timestamp := t1\<rparr>),
              access_times := dict_set (access_times c) ?key t2\<rparr>)"
    using Inr assms by (simp add: add_pattern_def bind_err_def Let_def key)
  moreover have "map fst (dict_set (cache c) ?key
                 (stored\<lparr>hit_count := hit_count stored + 1, fp_timestamp := t1\<rparr>)) = map fst (cache c)"
    using assms by (intro keys_dict_set_present) simp
  moreover from this have "length (dict_set (cache c) ?key
                 (stored\<lparr>hit_count := hit_count stored + 1, fp_timestamp := t1\<rparr>)) = length (cache c)"
    by (metis length_map)
  ultimately show ?thesis using ats by (simp add: dict_get_dict_set)
qed

theorem C10_add_pattern_existing_key_witness:
  "dict_get (cache ex_cache) (function_name (ex_event 50) @ '':'' @ module_name (ex_event 50))
     = Some \<lparr>fp_function_name = ''f'', fp_module_name = ''m'', duration_min = 9,
                 duration_max = 11, arg_types = [], resource_signature = ''00000000'',
                 fp_timestamp = 100, hit_count = 1\<rparr>
   \<and> add_pattern ex_lib 200 201 202 ex_cache (ex_event 50)
     = Inr (ex_cache\<lparr>cache := [(''f:m'', \<lparr>fp_function_name = ''f'', fp_module_name = ''m'',
                 duration_min = 9, duration_max = 11, arg_types = [],
                 resource_signature = ''00000000'', fp_timestamp = 201, hit_count = 2\<rparr>)],
              access_times := [(''f:m'', 202)]\<rparr>)"
proof -
  have h: "dict_get (cache ex_cache) (function_name (ex_event 50) @ '':'' @ module_name (ex_event 50))
     = Some \<lparr>fp_function_name = ''f'', fp_module_name = ''m'', duration_min = 9,
                 duration_max = 11, arg_types = [], resource_signature = ''00000000'',
                 fp_timestamp = 100, hit_count = 1\<rparr>"
    by (simp add: ex_cache_def ex_event_def)
  have a: "add_pattern ex_lib 200 201 202 ex_cache (ex_event 50)
     = Inr (ex_cache\<lparr>cache := [(''f:m'', \<lparr>fp_function_name = ''f'', fp_module_name = ''m'',
                 duration_min = 9, duration_max = 11, arg_types = [],
                 resource_signature = ''00000000'', fp_timestamp = 201, hit_count = 2\<rparr>)],
              access_times := [(''f:m'', 202)]\<rparr>)"
    by (simp add: add_pattern_def create_fingerprint_def event_arg_types_def bind_err_def
        Let_def to_key_def ex_cache_def ex_event_def)
  from C10_add_pattern_existing_key [OF h, where L = ex_lib and t_fp = 200 and ?t1.0 = 201
      and ?t2.0 = 202] h a
  show ?thesis by simp
qed

section \<open>Properties of the serialisation\<close>

text \<open>Writing a JSON-native value and reading it back gives the value.\<close>

lemma dict_set_fresh: "k \<notin> fst ` set d \<Longrightarrow> dict_set d k v = d @ [(k, v)]"
  by (induction d) auto

lemma foldl_dict_set_distinct:
  "distinct (map fst (acc @ kvs)) \<Longrightarrow> foldl (\<lambda>d (k, v). dict_set d k v) acc kvs = acc @ kvs"
proof (induction kvs arbitrary: acc)
  case Nil
  then show ?case by simp
next
  case (Cons kv kvs)
  obtain k v where kv: "kv = (k, v)" by (cases kv)
  from Cons.prems kv have "k \<notin> fst ` set acc" by auto
  then have "dict_set acc k v = acc @ [(k, v)]" by (rule dict_set_fresh)
  moreover have "distinct (map fst ((acc @ [(k, v)]) @ kvs))" using Cons.prems kv by simp
  ultimately show ?case using Cons.IH[of "acc @ [(k, v)]"] kv by simp
qed

lemma dict_of_pairs_distinct: "distinct (map fst kvs) \<Longrightarrow> dict_of_pairs kvs = kvs"
  using foldl_dict_set_distinct[of "[]" kvs] by (simp add: dict_of_pairs_def)

lemma json_roundtrip_native:
  "json_native v \<Longrightarrow> \<exists>j. json_dumps False v = Inr j \<and> json_loads j = v"
  "json_native_list xs \<Longrightarrow> \<exists>js. dumps_list False xs = Inr js \<and> map json_loads js = xs"
  "json_native_items kvs \<Longrightarrow>
     \<exists>kjs. dumps_items False kvs = Inr kjs \<and>
           map (\<lambda>(k, j). (KStr (key_str k), json_loads j)) kjs = kvs"
proof (induction v and xs and kvs rule: json_native_json_native_list_json_native_items.induct)
  case (8 kvs)
  then obtain kjs where kjs: "dumps_items False kvs = Inr kjs"
      "map (\<lambda>(k, j). (KStr (key_str k), json_loads j)) kjs = kvs"
    by auto
  have "map (\<lambda>(k, j). (KStr k, json_loads j)) (map (\<lambda>(k, j). (key_str k, j)) kjs) = kvs"
    using kjs(2) by (simp add: case_prod_unfold comp_def)
  moreover have "distinct (map fst kvs)" using 8 by simp
  ultimately show ?case using kjs(1) by (simp add: dict_of_pairs_distinct)
next
  case (12 k v kvs)
  then show ?case by (cases k) auto
qed auto

lemma json_native_items_tags: "json_native_items (map (\<lambda>(k, i). (KStr k, PInt i)) tags)"
  by (induction tags) auto

lemma json_native_tags_val:
  assumes "distinct (map fst tags)"
  shows "json_native (tags_val tags)"
proof -
  have "(fst \<circ> (\<lambda>(k, i). (KStr k, PInt i))) = KStr \<circ> fst"
    by (auto simp: fun_eq_iff)
  then have "map fst (map (\<lambda>(k, i). (KStr k, PInt i)) tags) = map KStr (map fst tags)"
    by simp
  moreover have "distinct (map KStr (map fst tags))"
    using assms by (simp add: distinct_map inj_on_def)
  ultimately have "distinct (map fst (map (\<lambda>(k, i). (KStr k, PInt i)) tags))"
    by metis
  then show ?thesis
    unfolding tags_val_def using json_native_items_tags[of tags]
    by (simp del: map_map)
qed

lemma as_tags_tags_val: "as_tags (tags_val tags) = Inr tags"
  unfolding tags_val_def by (induction tags) (auto simp: bind_err_def)

lemma json_native_list_floats: "json_native_list (map PFloat xs)"
  by (induction xs) auto

lemma as_float_list_floats: "as_float_list (PList (map PFloat xs)) = Inr xs"
  by (induction xs) (auto simp: bind_err_def)

lemma TelemetryEvent_roundtrip:
  assumes iso: "fromisoformat L (isoformat L (timestamp ev)) = Inr (timestamp ev)"
    and am: "json_native (PDict (args_metadata ev))"
    and rt: "distinct (map fst (resource_tags ev))"
  shows "bind_err (TelemetryEvent_to_json L ev) (TelemetryEvent_from_json L) = Inr ev"
proof -
  have "json_native (TelemetryEvent_to_dict L ev)"
    using am json_native_tags_val[OF rt] by (simp add: TelemetryEvent_to_dict_def)
  then obtain j where j: "json_dumps False (TelemetryEvent_to_dict L ev) = Inr j"
      "json_loads j = TelemetryEvent_to_dict L ev"
    using json_roundtrip_native(1) by blast
  have "TelemetryEvent_from_json L j = Inr ev"
    unfolding TelemetryEvent_from_json_def j(2)
    by (simp add: TelemetryEvent_to_dict_def bind_err_def parse_time_def only_keys_def
        get_field_def iso as_tags_tags_val)
  then show ?thesis by (simp add: TelemetryEvent_to_json_def j(1) bind_err_def)
qed

lemma BaselineProfile_roundtrip:
  assumes "fromisoformat L (isoformat L (created_at b)) = Inr (created_at b)"
    and "fromisoformat L (isoformat L (updated_at b)) = Inr (updated_at b)"
  shows "bind_err (BaselineProfile_to_json L b) (BaselineProfile_from_json L) = Inr b"
proof -
  have "json_native (BaselineProfile_to_dict L b)"
    by (simp add: BaselineProfile_to_dict_def json_native_list_floats)
  then obtain j where j: "json_dumps False (BaselineProfile_to_dict L b) = Inr j"
      "json_loads j = BaselineProfile_to_dict L b"
    using json_roundtrip_native(1) by blast
  have "BaselineProfile_from_json L j = Inr b"
    unfolding BaselineProfile_from_json_def j(2)
    by (simp add: BaselineProfile_to_dict_def bind_err_def parse_time_def only_keys_def
        get_field_def assms as_float_list_floats del: as_float_list.simps)
  then show ?thesis by (simp add: BaselineProfile_to_json_def j(1) bind_err_def)
qed

lemma Decision_roundtrip:
  assumes "case d_metadata d of None \<Rightarrow> True | Some m \<Rightarrow> json_native (PDict m)"
  shows "bind_err (Decision_to_json d) Decision_from_json = Inr d"
proof -
  have "json_native (Decision_to_dict d)"
    using assms by (simp add: Decision_to_dict_def optional_val_def split: option.splits)
  then obtain j where j: "json_dumps False (Decision_to_dict d) = Inr j"
      "json_loads j = Decision_to_dict d"
    using json_roundtrip_native(1) by blast
  have "Decision_from_json j = Inr d"
    unfolding Decision_from_json_def j(2)
    by (simp add: Decision_to_dict_def bind_err_def only_keys_def get_field_def
        get_field_default_def optional_val_def split: option.splits)
  then show ?thesis by (simp add: Decision_to_json_def j(1) bind_err_def)
qed

text \<open>
  Claim C8, as the code has it. Serialising and then deserialising gives back the value,
  field for field, for every BaselineProfile, for every TelemetryEvent whose
  \<^verbatim>\<open>args_metadata\<close> is JSON-native, and for every Decision whose \<^verbatim>\<open>metadata\<close> is absent
  or JSON-native (no tuples, string keys only, at every depth), given that
  \<^verbatim>\<open>fromisoformat\<close> reads back what \<^verbatim>\<open>isoformat\<close> wrote for the timestamps involved.
\<close>

theorem C8_roundtrip_json_native:
  assumes iso: "\<forall>t \<in> {timestamp ev, created_at b, updated_at b}.
                  fromisoformat L (isoformat L t) = Inr t"
    and am: "json_native (PDict (args_metadata ev))"
    and rt: "distinct (map fst (resource_tags ev))"
    and md: "case d_metadata d of None \<Rightarrow> True | Some m \<Rightarrow> json_native (PDict m)"
  shows "bind_err (TelemetryEvent_to_json L ev) (TelemetryEvent_from_json L) = Inr ev
       \<and> bind_err (BaselineProfile_to_json L b) (BaselineProfile_from_json L) = Inr b
       \<and> bind_err (Decision_to_json d) Decision_from_json = Inr d"
proof -
  from iso have "fromisoformat L (isoformat L (timestamp ev)) = Inr (timestamp ev)"
    and "fromisoformat L (isoformat L (created_at b)) = Inr (created_at b)"
    and "fromisoformat L (isoformat L (updated_at b)) = Inr (updated_at b)"
    by simp_all
  then show ?thesis
    using TelemetryEvent_roundtrip[OF _ am rt] BaselineProfile_roundtrip Decision_roundtrip[OF md]
    by blast
qed

theorem C8_roundtrip_json_native_witness:
  "fromisoformat ex_lib (isoformat ex_lib (timestamp (ex_event 50))) = Inr (timestamp (ex_event 50))
   \<and> fromisoformat ex_lib (isoformat ex_lib (created_at ex_baseline)) = Inr (created_at ex_baseline)
   \<and> fromisoformat ex_lib (isoformat ex_lib (updated_at ex_baseline)) = Inr (updated_at ex_baseline)
   \<and> json_native (PDict (args_metadata (ex_event 50)))
   \<and> distinct (map fst (resource_tags (ex_event 50)))
   \<and> (case d_metadata (ex_decision (PList [PInt 1])) of
         None \<Rightarrow> True | Some m \<Rightarrow> json_native (PDict m))
   \<and> bind_err (TelemetryEvent_to_json ex_lib (ex_event 50)) (TelemetryEvent_from_json ex_lib)
         = Inr (ex_event 50)
   \<and> bind_err (BaselineProfile_to_json ex_lib ex_baseline) (BaselineProfile_from_json ex_lib)
         = Inr ex_baseline
   \<and> bind_err (Decision_to_json (ex_decision (PList [PInt 1]))) Decision_from_json
         = Inr (ex_decision (PList [PInt 1]))"
proof -
  have iso: "\<forall>t \<in> {timestamp (ex_event 50), created_at ex_baseline, updated_at ex_baseline}.
       fromisoformat ex_lib (isoformat ex_lib t) = Inr t"
    by (simp add: ex_event_def ex_baseline_def ex_lib_def str_of_int_def digit_char_def)
  have am: "json_native (PDict (args_metadata (ex_event 50)))"
    by (simp add: ex_event_def)
  have rt: "distinct (map fst (resource_tags (ex_event 50)))"
    by (simp add: ex_event_def)
  have md: "case d_metadata (ex_decision (PList [PInt 1])) of
         None \<Rightarrow> True | Some m \<Rightarrow> json_native (PDict m)"
    by (simp add: ex_decision_def)
  from C8_roundtrip_json_native [OF iso am rt md] iso am rt md show ?thesis by simp
qed

text \<open>
  Claim C8 as stated, for every value, fails: JSON has neither tuples nor integer keys, so
  a Decision whose metadata holds a tuple comes back with a list, and one whose metadata
  holds a dict with the key \<^verbatim>\<open>1\<close> comes back with the key \<^verbatim>\<open>"1"\<close>.
\<close>

theorem C8_counterexample:
  "bind_err (Decision_to_json (ex_decision (PTuple [PInt 1]))) Decision_from_json
     = Inr (ex_decision (PList [PInt 1]))
   \<and> ex_decision (PList [PInt 1]) \<noteq> ex_decision (PTuple [PInt 1])
   \<and> bind_err (Decision_to_json (ex_decision (PDict [(KInt 1, PStr ''a'')]))) Decision_from_json
     = Inr (ex_decision (PDict [(KStr ''1'', PStr ''a'')]))
   \<and> ex_decision (PDict [(KStr ''1'', PStr ''a'')]) \<noteq> ex_decision (PDict [(KInt 1, PStr ''a'')])"
  by (simp add: ex_decision_def Decision_to_json_def Decision_from_json_def Decision_to_dict_def
      bind_err_def only_keys_def get_field_def get_field_default_def optional_val_def
      dict_of_pairs_def str_of_int_def digit_char_def)

section \<open>Properties of the audit log\<close>

text \<open>
  The signatures that \<open>hmac_sign\<close> produces are ASCII, so \<open>compare_digest\<close> compares
  them without raising.
\<close>

lemma is_ascii_hex_char: "(of_char (hex_char n) :: nat) < 128"
proof -
  have "list_all (\<lambda>c. (of_char c :: nat) < 128) ''0123456789abcdef''" by simp
  moreover have "n mod 16 < length ''0123456789abcdef''" by simp
  ultimately show ?thesis
    unfolding hex_char_def list_all_length by blast
qed

lemma is_ascii_hexdigest: "is_ascii (hexdigest bs)"
  by (induction bs) (simp_all add: is_ascii_def hexdigest_def is_ascii_hex_char)

lemma compare_digest_hex:
  "compare_digest (hexdigest a) (hexdigest b) = Inr (hexdigest a = hexdigest b)"
  by (simp add: compare_digest_def is_ascii_hexdigest)

text \<open>
  For audit events whose metadata is absent or JSON-native, the log behaves as claim C6
  says: every \<open>log_event\<close> appends one line, the earlier lines stay, \<open>verify_log_integrity\<close>
  holds after any sequence of calls, and every exported entry carries a signature that
  \<open>verify_signature\<close> accepts over its canonical encoding.
\<close>

lemma json_dumps_sorted_native:
  "json_native v \<Longrightarrow> \<exists>j. json_dumps True v = Inr j"
  "json_native_list xs \<Longrightarrow> \<exists>js. dumps_list True xs = Inr js"
  "json_native_items kvs \<Longrightarrow>
     \<exists>kjs. dumps_items True kvs = Inr kjs \<and> list_all is_KStr (map fst kjs)"
proof (induction v and xs and kvs rule: json_native_json_native_list_json_native_items.induct)
  case (8 kvs)
  then obtain kjs where "dumps_items True kvs = Inr kjs" "list_all is_KStr (map fst kjs)"
    by auto
  then show ?case by (simp add: sorted_items_def)
qed auto

lemma get_signable_data_signature:
  "get_signable_data L (e\<lparr>ae_signature := s\<rparr>) = get_signable_data L e"
  by (simp add: get_signable_data_def AuditEvent_to_dict_def)

lemma get_signable_data_native:
  assumes "native_audit L e"
  shows "\<exists>d. get_signable_data L e = Inr d"
proof -
  have "\<exists>j. json_dumps True (optional_val PDict (ae_metadata e)) = Inr j"
  proof (cases "ae_metadata e")
    case None
    then show ?thesis by (simp add: optional_val_def)
  next
    case (Some m)
    with assms have "json_native (PDict m)" by (simp add: native_audit_def)
    from json_dumps_sorted_native(1)[OF this] Some show ?thesis
      by (simp only: optional_val_def option.case)
  qed
  then obtain j where j: "json_dumps True (optional_val PDict (ae_metadata e)) = Inr j" ..
  show ?thesis
    by (simp add: get_signable_data_def bind_err_def AuditEvent_to_dict_def sorted_items_def j
        optional_val_def[of PStr] optional_val_def[of PFloat] split: option.splits)
qed

lemma AuditEvent_roundtrip:
  assumes "native_audit L e"
  shows "\<exists>line. AuditEvent_to_json L e = Inr line \<and> AuditEvent_from_json L line = Inr e"
proof -
  have "json_native (PDict (AuditEvent_to_dict L e))"
    using assms
    by (simp add: AuditEvent_to_dict_def optional_val_def native_audit_def split: option.splits)
  then obtain j where j: "json_dumps False (PDict (AuditEvent_to_dict L e)) = Inr j"
      "json_loads j = PDict (AuditEvent_to_dict L e)"
    using json_roundtrip_native(1) by blast
  have iso: "fromisoformat L (isoformat L (ae_timestamp e)) = Inr (ae_timestamp e)"
    using assms by (simp add: native_audit_def)
  have "AuditEvent_from_json L j = Inr e"
    unfolding AuditEvent_from_json_def j(2)
    by (simp add: AuditEvent_to_dict_def bind_err_def parse_time_def only_keys_def get_field_def
        get_field_default_def optional_val_def iso split: option.splits)
  with j(1) show ?thesis unfolding AuditEvent_to_json_def by blast
qed

lemma native_audit_signature [simp]:
  "native_audit L (e\<lparr>ae_signature := s\<rparr>) = native_audit L e"
  by (simp add: native_audit_def)

lemma log_event_native:
  assumes "native_audit L e"
  shows "\<exists>line d. log_event L st e = Inr (st\<lparr>log_lines := log_lines st @ [line]\<rparr>)
           \<and> get_signable_data L e = Inr d
           \<and> AuditEvent_from_json L line
               = Inr (e\<lparr>ae_signature := hmac_sign L (crypto_core st) d\<rparr>)
           \<and> verify_line L (crypto_core st) line = Inr True"
proof -
  obtain d where d: "get_signable_data L e = Inr d"
    using get_signable_data_native[OF assms] ..
  let ?e' = "e\<lparr>ae_signature := hmac_sign L (crypto_core st) d\<rparr>"
  obtain line where line: "AuditEvent_to_json L ?e' = Inr line"
      "AuditEvent_from_json L line = Inr ?e'"
    using AuditEvent_roundtrip[of L ?e'] assms by auto
  have "log_event L st e = Inr (st\<lparr>log_lines := log_lines st @ [line]\<rparr>)"
    by (simp add: log_event_def d line(1) bind_err_def Let_def)
  moreover have "verify_line L (crypto_core st) line = Inr True"
    by (simp add: verify_line_def line(2) bind_err_def get_signable_data_signature d
        verify_signature_def hmac_sign_def compare_digest_hex)
  ultimately show ?thesis using d line(2) by blast
qed

lemma verify_lines_append:
  "verify_lines L c (xs @ ys) = (verify_lines L c xs \<and> verify_lines L c ys)"
  by (induction xs) (auto split: sum.splits)

lemma verify_line_signed_entry:
  "verify_line L c line = Inr True \<Longrightarrow> AuditEvent_from_json L line = Inr e \<Longrightarrow> signed_entry L c e"
  by (auto simp: verify_line_def signed_entry_def bind_err_def split: sum.splits)

lemma export_lines_signed:
  "verify_lines L c ls \<Longrightarrow> e \<in> set (export_lines L s t ls) \<Longrightarrow> signed_entry L c e"
proof (induction ls)
  case Nil
  then show ?case by simp
next
  case (Cons line ls)
  from Cons.prems(1) have ok: "verify_line L c line = Inr True" and rest: "verify_lines L c ls"
    by (auto split: sum.splits if_splits)
  from Cons.prems(2) consider "e \<in> set (export_lines L s t ls)"
    | "AuditEvent_from_json L line = Inr e"
    by (auto split: sum.splits if_splits)
  then show ?case
  proof cases
    case 1
    then show ?thesis using Cons.IH rest by blast
  next
    case 2
    then show ?thesis using ok by (rule verify_line_signed_entry[rotated])
  qed
qed

lemma log_events_native:
  assumes "\<forall>e \<in> set es. native_audit L e"
    and "verify_lines L (crypto_core st) (log_lines st)"
  shows "verify_lines L (crypto_core (log_events L st es)) (log_lines (log_events L st es))
       \<and> crypto_core (log_events L st es) = crypto_core st
       \<and> length (log_lines (log_events L st es)) = length (log_lines st) + length es
       \<and> take (length (log_lines st)) (log_lines (log_events L st es)) = log_lines st"
  using assms
proof (induction es arbitrary: st)
  case Nil
  then show ?case by simp
next
  case (Cons e es)
  from Cons.prems(1) have "native_audit L e" by simp
  then obtain line where line: "log_event L st e = Inr (st\<lparr>log_lines := log_lines st @ [line]\<rparr>)"
      "verify_line L (crypto_core st) line = Inr True"
    using log_event_native[of L e st] by blast
  let ?st' = "st\<lparr>log_lines := log_lines st @ [line]\<rparr>"
  have v: "verify_lines L (crypto_core ?st') (log_lines ?st')"
    using Cons.prems(2) line(2) by (simp add: verify_lines_append)
  have "\<forall>e \<in> set es. native_audit L e" using Cons.prems(1) by simp
  from Cons.IH[OF this v] show ?case
    using line(1) by (auto simp: take_Suc_conv_app_nth dest: arg_cong[where f="take (length (log_lines st))"])
qed

lemma native_log_integrity:
  assumes "\<forall>e \<in> set es. native_audit L e" and "log_lines st = []"
  shows "verify_log_integrity L (log_events L st es)"
    and "\<forall>e \<in> set (export_logs L (log_events L st es) s t).
           signed_entry L (crypto_core st) e"
    and "get_event_count (log_events L st es) = length es"
proof -
  have v0: "verify_lines L (crypto_core st) (log_lines st)" using assms(2) by simp
  from log_events_native[OF assms(1) v0]
  have v: "verify_lines L (crypto_core st) (log_lines (log_events L st es))"
    and n: "length (log_lines (log_events L st es)) = length (log_lines st) + length es"
    by metis+
  show "verify_log_integrity L (log_events L st es)"
    using v log_events_native[OF assms(1) v0] by (simp add: verify_log_integrity_def)
  show "\<forall>e \<in> set (export_logs L (log_events L st es) s t). signed_entry L (crypto_core st) e"
    using export_lines_signed[OF v] by (auto simp: export_logs_def)
  show "get_event_count (log_events L st es) = length es"
    using n assms(2) by (simp add: get_event_count_def)
qed

text \<open>
  An audit event whose metadata holds a dict with the integer keys 10 and 9. It is signed
  over the encoding that sorts the keys as integers (9 before 10); the stored line holds
  them as strings, and the verifier's encoding sorts them as strings (\<^verbatim>\<open>"10"\<close> before
  \<^verbatim>\<open>"9"\<close>).
\<close>

lemma ex_signed_payload:
  "get_signable_data (ex_lib\<lparr>hmac_sha256 := H\<rparr>)
     (ex_audit (Some [(KStr ''counts'', PDict [(KInt 10, PStr ''a''), (KInt 9, PStr ''b'')])]))
   = Inr (ex_signable [(''9'', JStr ''b''), (''10'', JStr ''a'')])"
  by (simp add: get_signable_data_def bind_err_def AuditEvent_to_dict_def sorted_items_def
      optional_val_def ex_audit_def ex_signable_def ex_lib_def str_of_int_def digit_char_def)

lemma ex_logged:
  "log_events (ex_lib\<lparr>hmac_sha256 := H\<rparr>) ex_store
     [ex_audit (Some [(KStr ''counts'', PDict [(KInt 10, PStr ''a''), (KInt 9, PStr ''b'')])])]
   = ex_store\<lparr>log_lines :=
       [JObj [(''timestamp'', JStr ''0''), (''event_type'', JStr ''detection''),
              (''actor'', JStr ''system''), (''action'', JStr ''block''),
              (''result'', JStr ''success''),
              (''signature'', JStr (hexdigest (H [1, 2, 3]
                   (ex_signable [(''9'', JStr ''b''), (''10'', JStr ''a'')])))),
              (''target'', JNull), (''anomaly_score'', JNull),
              (''metadata'', JObj [(''counts'', JObj [(''10'', JStr ''a''), (''9'', JStr ''b'')])])]]\<rparr>"
  by (simp add: log_event_def ex_signed_payload bind_err_def Let_def hmac_sign_def ex_store_def
      ex_crypto_def)
     (simp add: AuditEvent_to_json_def AuditEvent_to_dict_def optional_val_def ex_audit_def
      ex_lib_def str_of_int_def digit_char_def)

lemma ex_reparsed_payload:
  "bind_err (AuditEvent_from_json (ex_lib\<lparr>hmac_sha256 := H\<rparr>)
      (JObj [(''timestamp'', JStr ''0''), (''event_type'', JStr ''detection''),
              (''actor'', JStr ''system''), (''action'', JStr ''block''),
              (''result'', JStr ''success''), (''signature'', JStr sg),
              (''target'', JNull), (''anomaly_score'', JNull),
              (''metadata'', JObj [(''counts'', JObj [(''10'', JStr ''a''), (''9'', JStr ''b'')])])]))
     (\<lambda>e. bind_err (get_signable_data (ex_lib\<lparr>hmac_sha256 := H\<rparr>) e)
        (\<lambda>d. Inr (d, ae_signature e)))
   = Inr (ex_signable [(''10'', JStr ''a''), (''9'', JStr ''b'')], sg)"
  by (simp add: AuditEvent_from_json_def bind_err_def parse_time_def only_keys_def get_field_def
      get_field_default_def dict_of_pairs_def ex_lib_def)
     (simp add: get_signable_data_def bind_err_def AuditEvent_to_dict_def sorted_items_def
      optional_val_def ex_signable_def str_of_int_def digit_char_def)

lemma integrity_of_reordered_keys:
  "verify_log_integrity (ex_lib\<lparr>hmac_sha256 := H\<rparr>)
     (log_events (ex_lib\<lparr>hmac_sha256 := H\<rparr>) ex_store
        [ex_audit (Some [(KStr ''counts'', PDict [(KInt 10, PStr ''a''), (KInt 9, PStr ''b'')])])])
   = (hexdigest (H (signing_key ex_crypto) (ex_signable [(''9'', JStr ''b''), (''10'', JStr ''a'')]))
      = hexdigest (H (signing_key ex_crypto) (ex_signable [(''10'', JStr ''a''), (''9'', JStr ''b'')])))
   \<and> ex_signable [(''9'', JStr ''b''), (''10'', JStr ''a'')]
       \<noteq> ex_signable [(''10'', JStr ''a''), (''9'', JStr ''b'')]"
proof -
  let ?L = "ex_lib\<lparr>hmac_sha256 := H\<rparr>"
  let ?sg = "hexdigest (H [1, 2, 3] (ex_signable [(''9'', JStr ''b''), (''10'', JStr ''a'')]))"
  let ?line = "JObj [(''timestamp'', JStr ''0''), (''event_type'', JStr ''detection''),
              (''actor'', JStr ''system''), (''action'', JStr ''block''),
              (''result'', JStr ''success''), (''signature'', JStr ?sg),
              (''target'', JNull), (''anomaly_score'', JNull),
              (''metadata'', JObj [(''counts'', JObj [(''10'', JStr ''a''), (''9'', JStr ''b'')])])]"
  have "verify_line ?L ex_crypto ?line
      = bind_err (bind_err (AuditEvent_from_json ?L ?line)
          (\<lambda>e. bind_err (get_signable_data ?L e) (\<lambda>d. Inr (d, ae_signature e))))
          (\<lambda>(d, sg). verify_signature ?L ex_crypto d sg)"
    by (simp add: verify_line_def bind_err_def split: sum.splits)
  also have "\<dots> = verify_signature ?L ex_crypto
       (ex_signable [(''10'', JStr ''a''), (''9'', JStr ''b'')]) ?sg"
    by (simp only: ex_reparsed_payload) (simp add: bind_err_def)
  also have "\<dots> = Inr (?sg = hexdigest (H [1, 2, 3]
       (ex_signable [(''10'', JStr ''a''), (''9'', JStr ''b'')])))"
    by (simp add: verify_signature_def hmac_sign_def compare_digest_hex ex_crypto_def)
  finally have "verify_line ?L ex_crypto ?line = Inr (?sg = hexdigest (H [1, 2, 3]
       (ex_signable [(''10'', JStr ''a''), (''9'', JStr ''b'')])))" .
  then have "verify_log_integrity ?L (log_events ?L ex_store
        [ex_audit (Some [(KStr ''counts'', PDict [(KInt 10, PStr ''a''), (KInt 9, PStr ''b'')])])])
      = (?sg = hexdigest (H [1, 2, 3] (ex_signable [(''10'', JStr ''a''), (''9'', JStr ''b'')])))"
    unfolding ex_logged by (simp add: verify_log_integrity_def ex_store_def)
  moreover have "ex_signable [(''9'', JStr ''b''), (''10'', JStr ''a'')]
       \<noteq> ex_signable [(''10'', JStr ''a''), (''9'', JStr ''b'')]"
    by (simp add: ex_signable_def)
  ultimately show ?thesis by (simp add: ex_crypto_def)
qed

lemma integer_keys_detected_as_tampering:
  "\<not> verify_log_integrity
       (ex_lib\<lparr>hmac_sha256 :=
          (\<lambda>key data. if data = ex_signable [(''9'', JStr ''b''), (''10'', JStr ''a'')]
                       then [1] else [0])\<rparr>)
       (log_events
          (ex_lib\<lparr>hmac_sha256 :=
             (\<lambda>key data. if data = ex_signable [(''9'', JStr ''b''), (''10'', JStr ''a'')]
                          then [1] else [0])\<rparr>)
          ex_store
          [ex_audit (Some [(KStr ''counts'', PDict [(KInt 10, PStr ''a''), (KInt 9, PStr ''b'')])])])"
proof -
  have "hexdigest [1] \<noteq> hexdigest [0]"
    by (simp add: hexdigest_def hex_char_def)
  moreover have "ex_signable [(''10'', JStr ''a''), (''9'', JStr ''b'')]
       \<noteq> ex_signable [(''9'', JStr ''b''), (''10'', JStr ''a'')]"
    by (simp add: ex_signable_def)
  ultimately show ?thesis
    using integrity_of_reordered_keys[of "\<lambda>key data.
        if data = ex_signable [(''9'', JStr ''b''), (''10'', JStr ''a'')] then [1] else [0]"]
    by simp
qed

text \<open>
  Claim C6 says that after any sequence of \<open>log_event\<close> calls \<open>verify_log_integrity\<close>
  returns True. After the single call that logs the event above it returns True only if
  the HMAC of two different byte strings is the same, for any HMAC function \<open>H\<close>.
\<close>

theorem C6_integer_keys_break_integrity:
  "verify_log_integrity (ex_lib\<lparr>hmac_sha256 := H\<rparr>)
     (log_events (ex_lib\<lparr>hmac_sha256 := H\<rparr>) ex_store
        [ex_audit (Some [(KStr ''counts'', PDict [(KInt 10, PStr ''a''), (KInt 9, PStr ''b'')])])])
   = (hexdigest (H (signing_key ex_crypto) (ex_signable [(''9'', JStr ''b''), (''10'', JStr ''a'')]))
      = hexdigest (H (signing_key ex_crypto) (ex_signable [(''10'', JStr ''a''), (''9'', JStr ''b'')])))
   \<and> ex_signable [(''9'', JStr ''b''), (''10'', JStr ''a'')]
       \<noteq> ex_signable [(''10'', JStr ''a''), (''9'', JStr ''b'')]"
  by (rule integrity_of_reordered_keys)

end
